theory Spec2Isabelle
  imports Complex_Main
begin

section \<open>The quadplay loader (console/quadplay-load.js)\<close>

text \<open>
  A shallow embedding of the parts of \<^verbatim>\<open>quadplay-load.js\<close> that sample animations,
  compile spritesheets, cache assets, check the start mode, resolve reference constants
  and parse literals and CSV tables.

  JavaScript strings are sequences of UTF-16 code units; the loader's grammars use glyphs
  outside ASCII, so a string is a list of code units, and \<open>js\<close> embeds an ASCII literal.
  Numbers are IEEE doubles in the source; the model computes with exact rationals or
  reals and keeps \<open>NaN\<close> and the infinities as separate values where the code can
  produce them.
\<close>

type_synonym jsstring = "nat list"

definition js :: "string \<Rightarrow> jsstring" where
  "js s = map of_char s"

subsection \<open>Animation arrays and \<^verbatim>\<open>animationFrame\<close>\<close>


text \<open>
  The fields of a sprite object that the loader reads or writes after allocating it.
  \<open>x_flipped\<close> and \<open>y_flipped\<close> are references to other sprite objects.
\<close>

type_synonym addr = nat

record sprite =
  tileX :: nat
  tileY :: nat
  sprite_id :: int
  orientation_id :: int
  scale :: "int \<times> int"
  frames :: rat
  x_flipped :: "addr option"
  y_flipped :: "addr option"
  frozen :: bool

text \<open>
  The sprite object that \<^verbatim>\<open>loadSpritesheet\<close> creates for grid cell \<open>(u, v)\<close>:
  \<^verbatim>\<open>id\<close> and \<^verbatim>\<open>orientation_id\<close> are both the current \<^verbatim>\<open>lastSpriteID\<close>, the scale is
  \<^verbatim>\<open>PP\<close>, the duration is the sheet's default, and the mirror properties do not exist yet.
\<close>

definition new_sprite :: "nat \<Rightarrow> nat \<Rightarrow> int \<Rightarrow> rat \<Rightarrow> sprite" where
  "new_sprite u v lastSpriteID sheetDefaultframes =
     \<lparr>tileX = u, tileY = v, sprite_id = lastSpriteID, orientation_id = lastSpriteID,
      scale = (1, 1), frames = sheetDefaultframes, x_flipped = None, y_flipped = None,
      frozen = False\<rparr>"


datatype js_error = TypeError






text \<open>
  \<^verbatim>\<open>while ((i < N) && (f >= animation[i].frames)) { f -= animation[i].frames; ++i; }\<close>
\<close>

function linear_search :: "sprite list \<Rightarrow> nat \<Rightarrow> rat \<Rightarrow> nat" where
  "linear_search a i f =
     (if i < length a \<and> frames (a ! i) \<le> f
      then linear_search a (Suc i) (f - frames (a ! i))
      else i)"
  by pat_completeness auto
termination
  by (relation "measure (\<lambda>(a, i, f). length a - i)") auto

declare linear_search.simps [simp del]







subsection \<open>Compiling the sprites of a spritesheet\<close>

text \<open>
  Sprite objects live in a store; the grid \<^verbatim>\<open>spritesheet[x][y]\<close> holds their references.
  \<open>lastSpriteID\<close> is the loader's global counter, set to a random start by
  \<^verbatim>\<open>afterLoadGame\<close>.
\<close>

record sheet_state =
  heap :: "addr \<Rightarrow> sprite option"
  next_addr :: addr
  lastSpriteID :: int

definition alloc :: "sprite \<Rightarrow> sheet_state \<Rightarrow> addr \<times> sheet_state" where
  "alloc obj s =
     (next_addr s, s\<lparr>heap := (heap s)(next_addr s \<mapsto> obj), next_addr := Suc (next_addr s)\<rparr>)"

definition update_object :: "addr \<Rightarrow> (sprite \<Rightarrow> sprite) \<Rightarrow> sheet_state \<Rightarrow> sheet_state" where
  "update_object a g s = s\<lparr>heap := (heap s)(a := map_option g (heap s a))\<rparr>"

text \<open>
  The body of the cell loop: \<^verbatim>\<open>const sprite = {...}; lastSpriteID += 3;
  spritesheet[x][y] = sprite;\<close>
\<close>

definition create_sprite :: "bool \<Rightarrow> rat \<Rightarrow> nat \<Rightarrow> nat \<Rightarrow> sheet_state \<Rightarrow> addr \<times> sheet_state" where
  "create_sprite transposed sheetDefaultframes x y s =
     (let u = (if transposed then y else x);
          v = (if transposed then x else y);
          (a, s1) = alloc (new_sprite u v (lastSpriteID s) sheetDefaultframes) s
      in (a, s1\<lparr>lastSpriteID := lastSpriteID s1 + 3\<rparr>))"

text \<open>\<^verbatim>\<open>for (let y = 0; y < rows; ++y)\<close>, over the indices \<open>[0..<rows]\<close>.\<close>

fun create_column ::
  "bool \<Rightarrow> rat \<Rightarrow> nat \<Rightarrow> nat list \<Rightarrow> sheet_state \<Rightarrow> addr list \<times> sheet_state" where
  "create_column transposed d x [] s = ([], s)"
| "create_column transposed d x (y # ys) s =
     (let (a, s1) = create_sprite transposed d x y s;
          (col, s2) = create_column transposed d x ys s1
      in (a # col, s2))"

text \<open>\<^verbatim>\<open>for (let x = 0; x < cols; ++x)\<close>, over the indices \<open>[0..<cols]\<close>.\<close>

fun create_grid ::
  "bool \<Rightarrow> rat \<Rightarrow> nat list \<Rightarrow> nat \<Rightarrow> sheet_state \<Rightarrow> addr list list \<times> sheet_state" where
  "create_grid transposed d [] rows s = ([], s)"
| "create_grid transposed d (x # xs) rows s =
     (let (col, s1) = create_column transposed d x [0..<rows] s;
          (grid, s2) = create_grid transposed d xs rows s1
      in (col # grid, s2))"

text \<open>
  \<^verbatim>\<open>Object.assign({k: sprite}, sprite)\<close> for a mirror property \<open>k\<close>: the copy keeps the
  source's own value of \<open>k\<close> when it has one and refers back to the source otherwise.
\<close>

definition back_reference :: "addr \<Rightarrow> addr option \<Rightarrow> addr option" where
  "back_reference a own = (case own of None \<Rightarrow> Some a | Some z \<Rightarrow> Some z)"

text \<open>
  The body of the loop that creates the flipped versions and freezes, one definition per
  paragraph of the source. Every property is read through the sprite's reference, as the
  source does (\<^verbatim>\<open>sprite.x_flipped.scale = NP\<close>). The file is in strict mode, so a write to
  a frozen sprite throws, and so does a property read on \<^verbatim>\<open>undefined\<close>. The \<^verbatim>\<open>name\<close>
  suffixes the loop appends are not modelled.
\<close>

definition then_do ::
  "js_error + sheet_state \<Rightarrow> (sheet_state \<Rightarrow> js_error + sheet_state) \<Rightarrow> js_error + sheet_state" where
  "then_do r k = (case r of Inl e \<Rightarrow> Inl e | Inr s \<Rightarrow> k s)"

definition make_x_flipped :: "addr \<Rightarrow> sheet_state \<Rightarrow> js_error + sheet_state" where
  "make_x_flipped a s =
     (case heap s a of
        None \<Rightarrow> Inl TypeError
      | Some sprite \<Rightarrow>
          if frozen sprite then Inl TypeError
          else
            let (xf, s1) = alloc (sprite\<lparr>x_flipped := back_reference a (x_flipped sprite)\<rparr>) s;
                s2 = update_object a (\<lambda>obj. obj\<lparr>x_flipped := Some xf\<rparr>) s1;
                s3 = update_object xf (\<lambda>obj. obj\<lparr>scale := (- 1, 1)\<rparr>) s2
            in Inr (update_object xf (\<lambda>obj. obj\<lparr>orientation_id := orientation_id obj + 1\<rparr>) s3))"

definition make_y_flipped :: "addr \<Rightarrow> sheet_state \<Rightarrow> js_error + sheet_state" where
  "make_y_flipped a s =
     (case heap s a of
        None \<Rightarrow> Inl TypeError
      | Some sprite \<Rightarrow>
          if frozen sprite then Inl TypeError
          else
            let (yf, s1) = alloc (sprite\<lparr>y_flipped := back_reference a (y_flipped sprite)\<rparr>) s;
                s2 = update_object a (\<lambda>obj. obj\<lparr>y_flipped := Some yf\<rparr>) s1;
                s3 = update_object yf (\<lambda>obj. obj\<lparr>orientation_id := orientation_id obj + 2\<rparr>) s2
            in Inr (update_object yf (\<lambda>obj. obj\<lparr>scale := (1, - 1)\<rparr>) s3))"

definition make_xy_flipped :: "addr \<Rightarrow> sheet_state \<Rightarrow> js_error + sheet_state" where
  "make_xy_flipped a s =
     (case heap s a of
        None \<Rightarrow> Inl TypeError
      | Some sprite \<Rightarrow>
          (case (x_flipped sprite, y_flipped sprite) of
             (Some xf, Some yf) \<Rightarrow>
               let (b, s1) = alloc sprite s;
                   s2 = update_object yf (\<lambda>obj. obj\<lparr>x_flipped := Some b\<rparr>) s1;
                   s3 = update_object xf (\<lambda>obj. obj\<lparr>y_flipped := Some b\<rparr>) s2;
                   s4 = update_object b (\<lambda>obj. obj\<lparr>scale := (- 1, - 1)\<rparr>) s3
               in Inr (update_object b (\<lambda>obj. obj\<lparr>orientation_id := orientation_id obj + 3\<rparr>) s4)
           | _ \<Rightarrow> Inl TypeError))"

definition freeze :: "addr \<Rightarrow> sheet_state \<Rightarrow> sheet_state" where
  "freeze a s = update_object a (\<lambda>obj. obj\<lparr>frozen := True\<rparr>) s"

definition freeze_variants :: "addr \<Rightarrow> sheet_state \<Rightarrow> js_error + sheet_state" where
  "freeze_variants a s =
     (case heap s a of
        None \<Rightarrow> Inl TypeError
      | Some sprite \<Rightarrow>
          (case (x_flipped sprite, y_flipped sprite) of
             (Some xf, Some yf) \<Rightarrow>
               (case Option.bind (heap s yf) x_flipped of
                  Some b \<Rightarrow> Inr (freeze a (freeze b (freeze yf (freeze xf s))))
                | None \<Rightarrow> Inl TypeError)
           | _ \<Rightarrow> Inl TypeError))"

definition flip_sprite :: "addr \<Rightarrow> sheet_state \<Rightarrow> js_error + sheet_state" where
  "flip_sprite a s =
     then_do (then_do (then_do (make_x_flipped a s) (make_y_flipped a)) (make_xy_flipped a))
       (freeze_variants a)"

text \<open>The two nested loops visit \<^verbatim>\<open>spritesheet[x][y]\<close> column by column.\<close>

fun flip_all :: "addr list \<Rightarrow> sheet_state \<Rightarrow> js_error + sheet_state" where
  "flip_all [] s = Inr s"
| "flip_all (a # as) s =
     (case flip_sprite a s of Inl e \<Rightarrow> Inl e | Inr s1 \<Rightarrow> flip_all as s1)"

text \<open>
  The sprite part of \<^verbatim>\<open>loadSpritesheet\<close>'s completion callback for a sheet without a
  \<^verbatim>\<open>names\<close> table: create the grid, then the flipped versions. The \<^verbatim>\<open>names\<close> table
  runs between the two loops; it renames sprites and sets their durations, pivots and
  custom properties, and it neither creates nor freezes a sprite.
\<close>

definition compile_sprites ::
  "bool \<Rightarrow> rat \<Rightarrow> nat \<Rightarrow> nat \<Rightarrow> sheet_state \<Rightarrow> js_error + addr list list \<times> sheet_state" where
  "compile_sprites transposed d cols rows s =
     (let (grid, s1) = create_grid transposed d [0..<cols] rows s
      in case flip_all (concat grid) s1 of
           Inl e \<Rightarrow> Inl e
         | Inr s2 \<Rightarrow> Inr (grid, s2))"

text \<open>Property reads through a reference: \<^verbatim>\<open>sprite.x_flipped\<close>, \<^verbatim>\<open>sprite.y_flipped\<close>.\<close>

definition get_x_flipped :: "sheet_state \<Rightarrow> addr \<Rightarrow> addr option" where
  "get_x_flipped s a = Option.bind (heap s a) x_flipped"

definition get_y_flipped :: "sheet_state \<Rightarrow> addr \<Rightarrow> addr option" where
  "get_y_flipped s a = Option.bind (heap s a) y_flipped"

definition empty_sheet_state :: "int \<Rightarrow> sheet_state" where
  "empty_sheet_state n = \<lparr>heap = Map.empty, next_addr = 0, lastSpriteID = n\<rparr>"


subsection \<open>The asset cache and the four asset loaders\<close>

text \<open>
  Asset objects live in a store; \<^verbatim>\<open>assetCache\<close> maps the URL of a metadata document to
  the reference of the live asset. Only the fields that the loaders set when they create
  an asset are modelled; what the fetch callbacks fill in later (pixel data, glyphs, audio
  buffers, layers) is not, except \<^verbatim>\<open>map.spritesheet\<close>, which \<^verbatim>\<open>loadMap\<close> reads on a cache
  hit. The fetches that the loaders schedule and the boot-screen messages are left out.
  \<^verbatim>\<open>clearAssetCache\<close> runs once, before the first loader call of a session; the
  properties below hold from every state, so also from the one it leaves.
\<close>

datatype asset_type = FontAsset | SpritesheetAsset | SoundAsset | MapAsset

record metadata =
  url :: jsstring
  sprite_url :: "jsstring option"
  sprite_url_table :: "(jsstring \<times> jsstring) list option"

record asset =
  asset_name :: jsstring
  asset_type :: asset_type
  asset_url :: jsstring
  asset_json :: metadata
  asset_jsonURL :: jsstring
  asset_index :: "nat option"
  map_spritesheet :: "addr option"

record load_state =
  assetCache :: "jsstring \<Rightarrow> addr option"
  objects :: "addr \<Rightarrow> asset option"
  next_object :: addr
  spritesheetArray :: "addr list"
  fontArray :: "addr list"
  pendingRequests :: nat

datatype load_error = NoSpriteUrlTable | UrlTypeError

definition new_object :: "asset \<Rightarrow> load_state \<Rightarrow> addr \<times> load_state" where
  "new_object obj s =
     (next_object s,
      s\<lparr>objects := (objects s)(next_object s \<mapsto> obj), next_object := Suc (next_object s)\<rparr>)"

text \<open>\<^verbatim>\<open>asset._index[0] = n\<close>\<close>

definition set_index :: "addr \<Rightarrow> nat \<Rightarrow> load_state \<Rightarrow> load_state" where
  "set_index a n s =
     s\<lparr>objects := (objects s)(a := map_option (\<lambda>obj. obj\<lparr>asset_index := Some n\<rparr>) (objects s a))\<rparr>"

text \<open>
  \<^verbatim>\<open>makeURLAbsolute\<close> only computes the \<^verbatim>\<open>_url\<close> stored in a new asset; it is a parameter
  \<open>mk\<close> of the loaders.
\<close>

definition loadFont ::
  "(jsstring \<Rightarrow> jsstring \<Rightarrow> jsstring) \<Rightarrow> jsstring \<Rightarrow> metadata \<Rightarrow> jsstring \<Rightarrow> load_state
     \<Rightarrow> (load_error + addr) \<times> load_state" where
  "loadFont mk name json jsonURL s =
     (case assetCache s jsonURL of
        Some font \<Rightarrow>
          (Inr font,
           if font \<notin> set (fontArray s)
           then (set_index font (length (fontArray s)) s)\<lparr>fontArray := fontArray s @ [font]\<rparr>
           else s)
      | None \<Rightarrow>
          let (font, s1) = new_object
                \<lparr>asset_name = name, asset_type = FontAsset, asset_url = mk jsonURL (url json),
                 asset_json = json, asset_jsonURL = jsonURL,
                 asset_index = Some (length (fontArray s)), map_spritesheet = None\<rparr> s;
              s2 = s1\<lparr>assetCache := (assetCache s1)(jsonURL \<mapsto> font)\<rparr>
          in (Inr font, s2\<lparr>fontArray := fontArray s2 @ [font]\<rparr>))"

text \<open>
  On a cache hit with a callback, \<^verbatim>\<open>loadSpritesheet\<close> increments the load manager's
  pending count and polls until the sheet is frozen; the polling is not modelled.
\<close>

definition loadSpritesheet ::
  "(jsstring \<Rightarrow> jsstring \<Rightarrow> jsstring) \<Rightarrow> jsstring \<Rightarrow> metadata \<Rightarrow> jsstring \<Rightarrow> bool \<Rightarrow> load_state
     \<Rightarrow> (load_error + addr) \<times> load_state" where
  "loadSpritesheet mk name json jsonURL callback s =
     (case assetCache s jsonURL of
        Some spritesheet \<Rightarrow>
          let s1 = (if spritesheet \<notin> set (spritesheetArray s)
                    then (set_index spritesheet (length (spritesheetArray s)) s)
                           \<lparr>spritesheetArray := spritesheetArray s @ [spritesheet]\<rparr>
                    else s)
          in (Inr spritesheet,
              if callback then s1\<lparr>pendingRequests := Suc (pendingRequests s1)\<rparr> else s1)
      | None \<Rightarrow>
          let (spritesheet, s1) = new_object
                \<lparr>asset_name = name, asset_type = SpritesheetAsset,
                 asset_url = mk jsonURL (url json), asset_json = json, asset_jsonURL = jsonURL,
                 asset_index = Some (length (spritesheetArray s)), map_spritesheet = None\<rparr> s;
              s2 = s1\<lparr>assetCache := (assetCache s1)(jsonURL \<mapsto> spritesheet)\<rparr>
          in (Inr spritesheet, s2\<lparr>spritesheetArray := spritesheetArray s2 @ [spritesheet]\<rparr>))"

definition loadSound ::
  "(jsstring \<Rightarrow> jsstring \<Rightarrow> jsstring) \<Rightarrow> jsstring \<Rightarrow> metadata \<Rightarrow> jsstring \<Rightarrow> load_state
     \<Rightarrow> (load_error + addr) \<times> load_state" where
  "loadSound mk name json jsonURL s =
     (case assetCache s jsonURL of
        Some sound \<Rightarrow> (Inr sound, s)
      | None \<Rightarrow>
          let (sound, s1) = new_object
                \<lparr>asset_name = name, asset_type = SoundAsset, asset_url = mk jsonURL (url json),
                 asset_json = json, asset_jsonURL = jsonURL,
                 asset_index = None, map_spritesheet = None\<rparr> s
          in (Inr sound, s1\<lparr>assetCache := (assetCache s1)(jsonURL \<mapsto> sound)\<rparr>))"

text \<open>
  \<^verbatim>\<open>loadMap\<close> stores the new map in the cache before it looks for the sprite URL, so a
  throw leaves the entry behind: \<^verbatim>\<open>'No sprite_url_table specified'\<close> when
  \<^verbatim>\<open>json.sprite_url\<close> is absent or empty and there is no table, and a type error from
  \<^verbatim>\<open>makeURLAbsolute\<close> when the table has no first entry.
\<close>

definition loadMap ::
  "(jsstring \<Rightarrow> jsstring \<Rightarrow> jsstring) \<Rightarrow> jsstring \<Rightarrow> metadata \<Rightarrow> jsstring \<Rightarrow> load_state
     \<Rightarrow> (load_error + addr) \<times> load_state" where
  "loadMap mk name json mapJSONUrl s =
     (case assetCache s mapJSONUrl of
        Some m \<Rightarrow>
          (Inr m,
           case Option.bind (objects s m) map_spritesheet of
             Some spritesheet \<Rightarrow>
               if spritesheet \<notin> set (spritesheetArray s)
               then (set_index spritesheet (length (spritesheetArray s)) s)
                      \<lparr>spritesheetArray := spritesheetArray s @ [spritesheet]\<rparr>
               else s
           | None \<Rightarrow> s)
      | None \<Rightarrow>
          let (m, s1) = new_object
                \<lparr>asset_name = name, asset_type = MapAsset, asset_url = mk mapJSONUrl (url json),
                 asset_json = json, asset_jsonURL = mapJSONUrl,
                 asset_index = None, map_spritesheet = None\<rparr> s;
              s2 = s1\<lparr>assetCache := (assetCache s1)(mapJSONUrl \<mapsto> m)\<rparr>
          in if sprite_url json \<noteq> None \<and> sprite_url json \<noteq> Some [] then (Inr m, s2)
             else (case sprite_url_table json of
                     None \<Rightarrow> (Inl NoSpriteUrlTable, s2)
                   | Some [] \<Rightarrow> (Inl UrlTypeError, s2)
                   | Some (entry # entries) \<Rightarrow> (Inr m, s2)))"

text \<open>
  What happens during a load session, in the order the fetch callbacks happen to run: calls
  of the four loaders (from the manifest's asset table, or \<^verbatim>\<open>loadSpritesheet\<close> from a map's
  \<^verbatim>\<open>loadSpritesheetJSONCallback\<close>), and \<^verbatim>\<open>loadSpritesheetCallback\<close> storing the compiled
  sheet in its map.
\<close>

datatype call =
    LoadFont jsstring metadata jsstring
  | LoadSpritesheet jsstring metadata jsstring bool
  | LoadSound jsstring metadata jsstring
  | LoadMap jsstring metadata jsstring

datatype event = Call call | MapSpritesheetLoaded addr addr

fun jsonURL_of :: "call \<Rightarrow> jsstring" where
  "jsonURL_of (LoadFont name json u) = u"
| "jsonURL_of (LoadSpritesheet name json u callback) = u"
| "jsonURL_of (LoadSound name json u) = u"
| "jsonURL_of (LoadMap name json u) = u"

fun load ::
  "(jsstring \<Rightarrow> jsstring \<Rightarrow> jsstring) \<Rightarrow> call \<Rightarrow> load_state \<Rightarrow> (load_error + addr) \<times> load_state" where
  "load mk (LoadFont name json u) s = loadFont mk name json u s"
| "load mk (LoadSpritesheet name json u callback) s = loadSpritesheet mk name json u callback s"
| "load mk (LoadSound name json u) s = loadSound mk name json u s"
| "load mk (LoadMap name json u) s = loadMap mk name json u s"

fun exec_event :: "(jsstring \<Rightarrow> jsstring \<Rightarrow> jsstring) \<Rightarrow> event \<Rightarrow> load_state \<Rightarrow> load_state" where
  "exec_event mk (Call c) s = snd (load mk c s)"
| "exec_event mk (MapSpritesheetLoaded m spritesheet) s =
     s\<lparr>objects := (objects s)
          (m := map_option (\<lambda>obj. obj\<lparr>map_spritesheet := Some spritesheet\<rparr>) (objects s m))\<rparr>"

fun exec_events :: "(jsstring \<Rightarrow> jsstring \<Rightarrow> jsstring) \<Rightarrow> event list \<Rightarrow> load_state \<Rightarrow> load_state" where
  "exec_events mk [] s = s"
| "exec_events mk (e # es) s = exec_events mk es (exec_event mk e s)"

text \<open>
  The objects constructed since the store held \<open>n0\<close> objects are each the cache's entry for
  their own \<^verbatim>\<open>_jsonURL\<close>.
\<close>

definition cached_since :: "addr \<Rightarrow> load_state \<Rightarrow> bool" where
  "cached_since n0 s =
     (n0 \<le> next_object s \<and>
      (\<forall>a. n0 \<le> a \<and> a < next_object s \<longrightarrow>
         (\<exists>obj. objects s a = Some obj \<and> assetCache s (asset_jsonURL obj) = Some a)))"

text \<open>The state \<^verbatim>\<open>afterLoadGame\<close> starts from when nothing is cached.\<close>

definition empty_load_state :: load_state where
  "empty_load_state =
     \<lparr>assetCache = Map.empty, objects = Map.empty, next_object = 0,
      spritesheetArray = [], fontArray = [], pendingRequests = 0\<rparr>"

subsection \<open>The modes of the manifest and \<^verbatim>\<open>start_mode\<close>\<close>













record mode =
  name :: jsstring
  mode_url :: jsstring






subsection \<open>Reference constants\<close>

text \<open>
  A declared constant of the manifest's constants table, as far as the resolver reads it: its
  \<^verbatim>\<open>type\<close> and, for a reference, the identifier in \<^verbatim>\<open>value\<close>. The table is a map
  from names to declarations.
\<close>

record const_decl =
  ctype :: jsstring
  cvalue :: jsstring

datatype reference_error = Cycle jsstring | Unresolved jsstring

text \<open>The separator \<^verbatim>\<open>' \<rightarrow> '\<close> of the reported path: space, U+2192, space.\<close>

definition arrow :: jsstring where
  "arrow = [0x20, 0x2192, 0x20]"

text \<open>
  The \<^verbatim>\<open>do ... while\<close> loop that follows a chain of references. \<open>alreadySeen\<close> is the
  source's \<^verbatim>\<open>Map\<close>; the loop body only tests it, it contains the name the walk started
  from and nothing is added to it. The loop need not end, so the result is an option and
  \<open>None\<close> means that it runs forever.
\<close>

partial_function (option) chain_walk ::
  "(jsstring \<Rightarrow> const_decl option) \<Rightarrow> jsstring list \<Rightarrow> jsstring \<Rightarrow> const_decl
     \<Rightarrow> (reference_error + jsstring \<times> jsstring) option" where
  "chain_walk constants alreadySeen path definition =
     (let ident = cvalue definition;
          path1 = path @ arrow @ ident
      in if ident \<in> set alreadySeen then Some (Inl (Cycle (js ''Cycle in reference chain: '' @ path1)))
         else (case constants ident of
                 None \<Rightarrow> Some (Inr (ident, path1))
               | Some d \<Rightarrow>
                   if ctype d = js ''reference''
                   then chain_walk constants alreadySeen path1 d
                   else Some (Inr (ident, path1))))"

text \<open>
  What \<^verbatim>\<open>gameSource.constants\<close> holds for a name: a value evaluated in the first pass, or
  the reference marker.
\<close>

datatype resolved = Evaluated | GlobalReference jsstring

text \<open>
  One iteration of the loop over the sorted keys: a reference is walked, and its end must be
  a name already in \<^verbatim>\<open>gameSource.constants\<close> or an asset of the manifest.
\<close>

definition resolve_reference ::
  "(jsstring \<Rightarrow> const_decl option) \<Rightarrow> jsstring list \<Rightarrow> jsstring
     \<Rightarrow> (jsstring \<Rightarrow> resolved option)
     \<Rightarrow> (reference_error + (jsstring \<Rightarrow> resolved option)) option" where
  "resolve_reference constants assets c gs =
     (case constants c of
        None \<Rightarrow> Some (Inr gs)
      | Some definition \<Rightarrow>
          if ctype definition = js ''reference''
          then (case chain_walk constants [c] c definition of
                  None \<Rightarrow> None
                | Some (Inl e) \<Rightarrow> Some (Inl e)
                | Some (Inr (ident, path)) \<Rightarrow>
                    if gs ident \<noteq> None \<or> ident \<in> set assets
                    then Some (Inr (gs(c \<mapsto> GlobalReference (cvalue definition))))
                    else Some (Inl (Unresolved (js ''Unresolved reference: '' @ path))))
          else Some (Inr gs))"

fun resolve_references ::
  "(jsstring \<Rightarrow> const_decl option) \<Rightarrow> jsstring list \<Rightarrow> jsstring list
     \<Rightarrow> (jsstring \<Rightarrow> resolved option)
     \<Rightarrow> (reference_error + (jsstring \<Rightarrow> resolved option)) option" where
  "resolve_references constants assets [] gs = Some (Inr gs)"
| "resolve_references constants assets (c # keys) gs =
     (case resolve_reference constants assets c gs of
        None \<Rightarrow> None
      | Some (Inl e) \<Rightarrow> Some (Inl e)
      | Some (Inr gs1) \<Rightarrow> resolve_references constants assets keys gs1)"

definition reference_to :: "jsstring \<Rightarrow> const_decl" where
  "reference_to ident = \<lparr>ctype = js ''reference'', cvalue = ident\<rparr>"

subsection \<open>Numbers and \<^verbatim>\<open>parseFloat\<close>\<close>

text \<open>
  A JavaScript number: a finite value (an exact real in the model; the sign of zero and the
  rounding to a double are not modelled), an infinity, or \<^verbatim>\<open>NaN\<close>.
\<close>

datatype number = Num real | PosInfinity | NegInfinity | NaN

definition negate :: "number \<Rightarrow> number" where
  "negate x = (case x of Num r \<Rightarrow> Num (- r) | PosInfinity \<Rightarrow> NegInfinity
                 | NegInfinity \<Rightarrow> PosInfinity | NaN \<Rightarrow> NaN)"

text \<open>\<^verbatim>\<open>x * k\<close> and \<^verbatim>\<open>x / k\<close> for a finite positive constant \<open>k\<close>.\<close>

definition times :: "number \<Rightarrow> real \<Rightarrow> number" where
  "times x k = (case x of Num r \<Rightarrow> Num (r * k) | PosInfinity \<Rightarrow> PosInfinity
                  | NegInfinity \<Rightarrow> NegInfinity | NaN \<Rightarrow> NaN)"

definition divided_by :: "number \<Rightarrow> real \<Rightarrow> number" where
  "divided_by x k = (case x of Num r \<Rightarrow> Num (r / k) | PosInfinity \<Rightarrow> PosInfinity
                       | NegInfinity \<Rightarrow> NegInfinity | NaN \<Rightarrow> NaN)"

definition isNaN :: "number \<Rightarrow> bool" where
  "isNaN x = (case x of NaN \<Rightarrow> True | _ \<Rightarrow> False)"

text \<open>
  The host function \<^verbatim>\<open>parseFloat\<close>, from its ECMAScript definition: skip leading white
  space, then read the longest prefix that is a decimal literal (optional sign, then
  \<^verbatim>\<open>Infinity\<close> or digits with an optional fraction and an optional exponent); the rest of
  the string is ignored, and the result is \<^verbatim>\<open>NaN\<close> when no prefix is a literal.
\<close>

definition is_space :: "nat \<Rightarrow> bool" where
  "is_space c =
     (c \<in> set [0x09, 0x0A, 0x0B, 0x0C, 0x0D, 0x20, 0xA0, 0x1680, 0x2028, 0x2029, 0x202F,
                0x205F, 0x3000, 0xFEFF]
      \<or> (0x2000 \<le> c \<and> c \<le> 0x200A))"

definition is_digit :: "nat \<Rightarrow> bool" where
  "is_digit c = (0x30 \<le> c \<and> c \<le> 0x39)"

definition digits_value :: "nat list \<Rightarrow> nat" where
  "digits_value ds = foldl (\<lambda>acc c. 10 * acc + (c - 0x30)) 0 ds"

definition exponent_digits :: "int \<Rightarrow> jsstring \<Rightarrow> int" where
  "exponent_digits sign s =
     (if takeWhile is_digit s = [] then 0 else sign * int (digits_value (takeWhile is_digit s)))"

definition exponent_part :: "jsstring \<Rightarrow> int" where
  "exponent_part s =
     (case s of
        [] \<Rightarrow> 0
      | c # r \<Rightarrow>
          if c = 0x65 \<or> c = 0x45
          then (case r of
                  [] \<Rightarrow> 0
                | sign # r1 \<Rightarrow>
                    if sign = 0x2B then exponent_digits 1 r1
                    else if sign = 0x2D then exponent_digits (- 1) r1
                    else exponent_digits 1 r)
          else 0)"

definition decimal_value :: "nat list \<Rightarrow> nat \<Rightarrow> int \<Rightarrow> real" where
  "decimal_value ds k e =
     real (digits_value ds) / 10 ^ k * (if e < 0 then 1 / 10 ^ nat (- e) else 10 ^ nat e)"

definition unsigned_literal :: "jsstring \<Rightarrow> number" where
  "unsigned_literal s =
     (if take 8 s = js ''Infinity'' then PosInfinity
      else
        let ip = takeWhile is_digit s;
            r = dropWhile is_digit s
        in case r of
             [] \<Rightarrow> if ip = [] then NaN else Num (decimal_value ip 0 0)
           | c # r1 \<Rightarrow>
               if c = 0x2E
               then (let fp = takeWhile is_digit r1
                     in if ip = [] \<and> fp = [] then NaN
                        else Num (decimal_value (ip @ fp) (length fp)
                                    (exponent_part (dropWhile is_digit r1))))
               else if ip = [] then NaN
               else Num (decimal_value ip 0 (exponent_part r)))"

definition parseFloat :: "jsstring \<Rightarrow> number" where
  "parseFloat s =
     (case dropWhile is_space s of
        [] \<Rightarrow> NaN
      | c # r \<Rightarrow>
          if c = 0x2B then unsigned_literal r
          else if c = 0x2D then negate (unsigned_literal r)
          else unsigned_literal (c # r))"

subsection \<open>The literal parser \<^verbatim>\<open>$parse\<close>\<close>

text \<open>
  The values \<^verbatim>\<open>$parse\<close> produces. An object is the list of its properties in the order
  they were first assigned.
\<close>

datatype jsval =
    VBool bool
  | VUndefined
  | VFunction
  | VNum number
  | VStr jsstring
  | VArr "jsval list"
  | VObj "(jsstring \<times> jsval) list"

datatype parse_error = HitTheEnd jsstring

text \<open>
  \<^verbatim>\<open>toLowerCase\<close> on the letters the named constants can come from: the basic Latin
  capitals and the Greek capital pi. Every other code unit is kept; the named constants
  contain no other cased letter.
\<close>

definition to_lower :: "nat \<Rightarrow> nat" where
  "to_lower c = (if 0x41 \<le> c \<and> c \<le> 0x5A then c + 0x20 else if c = 0x3A0 then 0x3C0 else c)"

text \<open>Scanning loops of the form \<^verbatim>\<open>while (P(source[i])) { ++i; }\<close>, which stop at the end.\<close>

definition skip_while :: "(nat \<Rightarrow> bool) \<Rightarrow> jsstring \<Rightarrow> nat \<Rightarrow> nat" where
  "skip_while P source i = i + length (takeWhile P (drop i source))"

definition substring :: "jsstring \<Rightarrow> nat \<Rightarrow> nat \<Rightarrow> jsstring" where
  "substring source b e = take (e - b) (drop b source)"

text \<open>\<^verbatim>\<open>regexIndexOf(text, re, i)\<close> for a character class: the first member at or after \<open>i\<close>.\<close>

definition regexIndexOf :: "jsstring \<Rightarrow> nat list \<Rightarrow> nat \<Rightarrow> nat" where
  "regexIndexOf text cls i = skip_while (\<lambda>c. c \<notin> set cls) text i"

text \<open>
  \<^verbatim>\<open>while (i < source.length && (source[i] !== '"' || source[i - 1] === '\\')) { ++i; }\<close>:
  the number of characters before the closing quote, given the character before the first.
\<close>

fun string_body :: "nat \<Rightarrow> jsstring \<Rightarrow> nat" where
  "string_body previous [] = 0"
| "string_body previous (c # cs) =
     (if c = 0x22
      then (if previous = 0x5C then Suc (string_body c cs) else 0)
      else Suc (string_body c cs))"

text \<open>The \<^verbatim>\<open>switch (token)\<close> of named constants, in the order of the source.\<close>

definition named_constants :: "(jsstring \<times> jsval) list" where
  "named_constants =
     [(js ''true'', VBool True),
      (js ''false'', VBool False),
      (js ''nil'', VUndefined), ([0x2205], VUndefined), (js ''builtin'', VUndefined),
      (js ''function'', VFunction),
      (js ''infinity'', VNum PosInfinity), ([0x221E], VNum PosInfinity),
      (js ''+infinity'', VNum PosInfinity), ([0x2B, 0x221E], VNum PosInfinity),
      (js ''-infinity'', VNum NegInfinity), ([0x2D, 0x221E], VNum NegInfinity),
      (js ''nan'', VNum NaN),
      (js ''pi'', VNum (Num pi)), ([0x3C0], VNum (Num pi)),
      (js ''+pi'', VNum (Num pi)), ([0x2B, 0x3C0], VNum (Num pi)),
      (js ''-pi'', VNum (Num (- pi))), ([0x2D, 0x3C0], VNum (Num (- pi))),
      (0xBC # js ''pi'', VNum (Num (pi / 4))), ([0xBC, 0x3C0], VNum (Num (pi / 4))),
      (0x2B # 0xBC # js ''pi'', VNum (Num (pi / 4))), ([0x2B, 0xBC, 0x3C0], VNum (Num (pi / 4))),
      (0x2D # 0xBC # js ''pi'', VNum (Num (- pi / 4))), ([0x2D, 0xBC, 0x3C0], VNum (Num (- pi / 4))),
      (0xBD # js ''pi'', VNum (Num (pi / 4))), ([0xBD, 0x3C0], VNum (Num (pi / 4))),
      (0x2B # 0xBD # js ''pi'', VNum (Num (pi / 4))), ([0x2B, 0xBD, 0x3C0], VNum (Num (pi / 4))),
      (0x2D # 0xBD # js ''pi'', VNum (Num (- pi / 4))), ([0x2D, 0xBD, 0x3C0], VNum (Num (- pi / 4))),
      (0xBE # js ''pi'', VNum (Num (pi * 3 / 4))), ([0xBE, 0x3C0], VNum (Num (pi * 3 / 4))),
      (0x2B # 0xBE # js ''pi'', VNum (Num (pi * 3 / 4))),
      ([0x2B, 0xBE, 0x3C0], VNum (Num (pi * 3 / 4))),
      (0x2D # 0xBE # js ''pi'', VNum (Num (- pi * 3 / 4))),
      ([0x2D, 0xBE, 0x3C0], VNum (Num (- pi * 3 / 4))),
      ([0xBC], VNum (Num (1 / 4))),
      ([0xBD], VNum (Num (1 / 2))),
      ([0xBE], VNum (Num (3 / 4))),
      ([0x2153], VNum (Num (1 / 3))),
      ([0x2154], VNum (Num (2 / 3))),
      ([0x2155], VNum (Num (1 / 5))),
      ([0x2156], VNum (Num (2 / 5))),
      ([0x2157], VNum (Num (3 / 5))),
      ([0x2158], VNum (Num (4 / 5))),
      ([0x2159], VNum (Num (1 / 6))),
      ([0x215A], VNum (Num (5 / 6))),
      ([0x2150], VNum (Num (1 / 7))),
      ([0x215B], VNum (Num (1 / 8))),
      ([0x215C], VNum (Num (3 / 8))),
      ([0x215D], VNum (Num (5 / 8))),
      ([0x215E], VNum (Num (7 / 8))),
      ([0x2151], VNum (Num (1 / 9))),
      ([0x2152], VNum (Num (1 / 10))),
      ([0x2D, 0xBC], VNum (Num (- 1 / 4))),
      ([0x2D, 0xBD], VNum (Num (- 1 / 2))),
      ([0x2D, 0xBE], VNum (Num (- 3 / 4))),
      ([0x2D, 0x2153], VNum (Num (- 1 / 3))),
      ([0x2D, 0x2154], VNum (Num (- 2 / 3))),
      ([0x2D, 0x2155], VNum (Num (- 1 / 5))),
      ([0x2D, 0x2156], VNum (Num (- 2 / 5))),
      ([0x2D, 0x2157], VNum (Num (- 3 / 5))),
      ([0x2D, 0x2158], VNum (Num (- 4 / 5))),
      ([0x2D, 0x2159], VNum (Num (- 1 / 6))),
      ([0x2D, 0x215A], VNum (Num (- 5 / 6))),
      ([0x2D, 0x2150], VNum (Num (- 1 / 7))),
      ([0x2D, 0x215B], VNum (Num (- 1 / 8))),
      ([0x2D, 0x215C], VNum (Num (- 3 / 8))),
      ([0x2D, 0x215D], VNum (Num (- 5 / 8))),
      ([0x2D, 0x215E], VNum (Num (- 7 / 8))),
      ([0x2D, 0x2151], VNum (Num (- 1 / 9))),
      ([0x2D, 0x2152], VNum (Num (- 1 / 10)))]"

text \<open>\<^verbatim>\<open>/(deg|\<degree>)$/.test(token)\<close> and \<^verbatim>\<open>/%$/.test(token)\<close>\<close>

definition ends_with :: "jsstring \<Rightarrow> jsstring \<Rightarrow> bool" where
  "ends_with suffix s = (length suffix \<le> length s \<and> drop (length s - length suffix) s = suffix)"

definition parse_token :: "jsstring \<Rightarrow> jsval" where
  "parse_token token =
     (case map_of named_constants token of
        Some v \<Rightarrow> v
      | None \<Rightarrow>
          if ends_with (js ''deg'') token \<or> ends_with [0xB0] token
          then VNum (divided_by (times (parseFloat token) pi) 180)
          else if ends_with (js ''%'') token
          then VNum (divided_by (parseFloat token) 100)
          else VNum (parseFloat token))"

text \<open>\<^verbatim>\<open>t[key] = value\<close> on the property list.\<close>

fun assign :: "jsstring \<Rightarrow> jsval \<Rightarrow> (jsstring \<times> jsval) list \<Rightarrow> (jsstring \<times> jsval) list" where
  "assign key v [] = [(key, v)]"
| "assign key v ((k, w) # t) = (if k = key then (k, v) # t else (k, w) # assign key v t)"

definition blank :: "nat list" where
  "blank = [0x20, 0x09, 0x0A]"

definition separators :: "nat list" where
  "separators = js '',:[{}] '' @ [0x0A, 0x09, 0x22]"

definition key_separators :: "nat list" where
  "key_separators = js '': '' @ [0x0A, 0x09, 0x22]"

text \<open>
  \<^verbatim>\<open>$parse(source, i)\<close>. The array and object loops call it again and a malformed source
  can keep them from advancing, so the three functions consume fuel: one unit for each
  iteration of a loop and for each call. \<open>None\<close> means the fuel ran out.
\<close>

fun parse :: "nat \<Rightarrow> jsstring \<Rightarrow> nat \<Rightarrow> (parse_error + jsval \<times> nat) option"
  and parse_array :: "nat \<Rightarrow> jsstring \<Rightarrow> nat \<Rightarrow> jsval list \<Rightarrow> (parse_error + jsval \<times> nat) option"
  and parse_object ::
    "nat \<Rightarrow> jsstring \<Rightarrow> nat \<Rightarrow> (jsstring \<times> jsval) list \<Rightarrow> (parse_error + jsval \<times> nat) option"
  where
  "parse 0 source i = None"
| "parse (Suc n) source i =
     (if i < length source
      then (let c = source ! i
            in if c \<in> set blank then parse n source (Suc i)
               else if c = 0x22
               then (let e = Suc i + string_body c (drop (Suc i) source)
                     in Some (Inr (VStr (substring source (Suc i) e), Suc e)))
               else if c = 0x5B
               then parse_array n source (skip_while (\<lambda>c. c \<in> set blank) source (Suc i)) []
               else if c = 0x7B
               then parse_object n source (skip_while (\<lambda>c. c \<in> set blank) source (Suc i)) []
               else (let e = regexIndexOf source separators i
                     in Some (Inr (parse_token (map to_lower (substring source i e)), e))))
      else Some (Inl (HitTheEnd source)))"
| "parse_array 0 source i a = None"
| "parse_array (Suc n) source i a =
     (if i < length source \<and> source ! i \<noteq> 0x5D
      then (case parse n source i of
              None \<Rightarrow> None
            | Some (Inl err) \<Rightarrow> Some (Inl err)
            | Some (Inr (child, next)) \<Rightarrow>
                if child = VStr [0x2026]
                then Some (Inr (VArr [], Suc (skip_while (\<lambda>c. c \<noteq> 0x5D) source i)))
                else parse_array n source
                       (skip_while (\<lambda>c. c \<in> set (0x2C # blank)) source next) (a @ [child]))
      else Some (Inr (VArr a, Suc i)))"
| "parse_object 0 source i t = None"
| "parse_object (Suc n) source i t =
     (if i < length source \<and> source ! i \<noteq> 0x7D
      then (case (if source ! i = 0x22
                  then (case parse n source i of
                          None \<Rightarrow> None
                        | Some (Inl err) \<Rightarrow> Some (Inl err)
                        | Some (Inr (temp, next)) \<Rightarrow> Some (Inr (temp, next)))
                  else (let e = regexIndexOf source key_separators i
                        in Some (Inr (VStr (substring source i e), e)))) of
              None \<Rightarrow> None
            | Some (Inl err) \<Rightarrow> Some (Inl err)
            | Some (Inr (key, i1)) \<Rightarrow>
                if key = VStr [0x2026]
                then Some (Inr (VObj [], Suc (skip_while (\<lambda>c. c \<noteq> 0x7D) source i1)))
                else (case parse n source (skip_while (\<lambda>c. c \<in> set (0x3A # blank)) source i1) of
                        None \<Rightarrow> None
                      | Some (Inl err) \<Rightarrow> Some (Inl err)
                      | Some (Inr (v, next)) \<Rightarrow>
                          parse_object n source
                            (skip_while (\<lambda>c. c \<in> set (0x2C # blank)) source next)
                            (assign (case key of VStr k \<Rightarrow> k | _ \<Rightarrow> []) v t)))
      else Some (Inr (VObj t, Suc i)))"

subsection \<open>The tabular parser \<^verbatim>\<open>parseCSV\<close>\<close>

text \<open>
  The pattern
  \<^verbatim>\<open>/(,|\r?\n|\r|^)(?:"([^"]*(?:""[^"]*)*)"|([^,\r\n]*))/gi\<close>
  is run with \<^verbatim>\<open>exec\<close> from \<^verbatim>\<open>lastIndex\<close>. First the delimiter group at a position
  \<open>k\<close> of the text, whose remaining characters are \<open>rest\<close>: the length of the first
  alternative that matches.
\<close>

definition match_delimiter :: "nat \<Rightarrow> jsstring \<Rightarrow> nat option" where
  "match_delimiter k rest =
     (if take 1 rest = [0x2C] then Some 1
      else if take 2 rest = [0x0D, 0x0A] then Some 2
      else if take 1 rest = [0x0A] then Some 1
      else if take 1 rest = [0x0D] then Some 1
      else if k = 0 then Some 0
      else None)"

text \<open>
  The value groups never fail once the delimiter has matched, so the search tries the
  positions from \<^verbatim>\<open>lastIndex\<close> on and stops at the first with a delimiter. The result is
  the position and the length of the delimiter.
\<close>

fun find_match :: "nat \<Rightarrow> jsstring \<Rightarrow> (nat \<times> nat) option" where
  "find_match k [] = (if k = 0 then Some (0, 0) else None)"
| "find_match k (c # cs) =
     (case match_delimiter k (c # cs) of
        Some d \<Rightarrow> Some (k, d)
      | None \<Rightarrow> find_match (Suc k) cs)"

text \<open>
  The quoted alternative after the opening quote: the length of the text matched by
  \<^verbatim>\<open>[^"]*(?:""[^"]*)*\<close> when a closing quote follows it. The repetition is greedy, so a
  doubled quote is taken as part of the field when the rest can still be closed, and as the
  closing quote otherwise.
\<close>

fun quoted_body :: "jsstring \<Rightarrow> nat option" where
  "quoted_body [] = None"
| "quoted_body [c] = (if c = 0x22 then Some 0 else None)"
| "quoted_body (c # d # ds) =
     (if c = 0x22
      then (if d = 0x22
            then (case quoted_body ds of Some n \<Rightarrow> Some (n + 2) | None \<Rightarrow> Some 0)
            else Some 0)
      else map_option Suc (quoted_body (d # ds)))"

definition field_end :: "nat \<Rightarrow> bool" where
  "field_end c = (c = 0x2C \<or> c = 0x0D \<or> c = 0x0A)"

text \<open>
  One \<^verbatim>\<open>exec\<close>: \<^verbatim>\<open>null\<close>, or the groups 1, 2 and 3 of the match (an absent group is
  \<^verbatim>\<open>undefined\<close>) and the new \<^verbatim>\<open>lastIndex\<close>.
\<close>

record csv_match =
  group1 :: jsstring
  group2 :: "jsstring option"
  group3 :: "jsstring option"
  match_end :: nat

definition regex_exec :: "jsstring \<Rightarrow> nat \<Rightarrow> csv_match option" where
  "regex_exec strData lastIndex =
     (case find_match lastIndex (drop lastIndex strData) of
        None \<Rightarrow> None
      | Some (k, d) \<Rightarrow>
          let p = k + d;
              rest = drop p strData;
              body = (case rest of [] \<Rightarrow> None
                      | c # cs \<Rightarrow> if c = 0x22 then quoted_body cs else None)
          in case body of
               Some n \<Rightarrow>
                 Some \<lparr>group1 = substring strData k p,
                       group2 = Some (take n (drop (Suc p) strData)),
                       group3 = None, match_end = p + n + 2\<rparr>
             | None \<Rightarrow>
                 Some \<lparr>group1 = substring strData k p, group2 = None,
                       group3 = Some (takeWhile (\<lambda>c. \<not> field_end c) rest),
                       match_end = p + length (takeWhile (\<lambda>c. \<not> field_end c) rest)\<rparr>)"

text \<open>\<^verbatim>\<open>s.replace(/""/g, '"')\<close>\<close>

fun unescape_quotes :: "jsstring \<Rightarrow> jsstring" where
  "unescape_quotes (c # d # cs) =
     (if c = 0x22 \<and> d = 0x22 then 0x22 # unescape_quotes cs else c # unescape_quotes (d # cs))"
| "unescape_quotes cs = cs"

text \<open>
  A row is an array whose elements may be missing: \<open>None\<close> is a hole, \<open>Some v\<close> an
  element. The body of the \<^verbatim>\<open>exec\<close> loop starts a new row after a line break and pushes
  the field; an empty quoted field is falsy, so \<^verbatim>\<open>arrMatches[3]\<close>, which is
  \<^verbatim>\<open>undefined\<close> then, is pushed for it.
\<close>

definition push_match :: "jsval option list list \<Rightarrow> csv_match \<Rightarrow> jsval option list list" where
  "push_match data m =
     (let data1 = (if group1 m \<noteq> [] \<and> group1 m \<noteq> [0x2C] then data @ [[]] else data);
          field = (case group2 m of
                     Some q \<Rightarrow> if q \<noteq> [] then VStr (unescape_quotes q)
                               else (case group3 m of Some u \<Rightarrow> VStr u | None \<Rightarrow> VUndefined)
                   | None \<Rightarrow> (case group3 m of Some u \<Rightarrow> VStr u | None \<Rightarrow> VUndefined))
      in butlast data1 @ [last data1 @ [Some field]])"

text \<open>
  \<^verbatim>\<open>while (arrMatches = objPattern.exec(strData)) { ... }\<close>. \<^verbatim>\<open>exec\<close> does not move
  \<^verbatim>\<open>lastIndex\<close> past an empty match, so the loop need not end; \<open>None\<close> means that it runs
  forever.
\<close>

partial_function (option) exec_loop ::
  "jsstring \<Rightarrow> nat \<Rightarrow> jsval option list list \<Rightarrow> jsval option list list option" where
  "exec_loop strData lastIndex data =
     (case regex_exec strData lastIndex of
        None \<Rightarrow> Some data
      | Some m \<Rightarrow> exec_loop strData (match_end m) (push_match data m))"

text \<open>\<^verbatim>\<open>String.prototype.trim\<close>\<close>

definition trim_string :: "jsstring \<Rightarrow> jsstring" where
  "trim_string s = rev (dropWhile is_space (rev (dropWhile is_space s)))"

text \<open>The character class \<^verbatim>\<open>[+\-0-9\.e]\<close> and the three tests of the default case.\<close>

definition numeric_char :: "nat \<Rightarrow> bool" where
  "numeric_char c = (c \<in> set (js ''+-0123456789.e''))"

definition currency_literal :: "jsstring \<Rightarrow> bool" where
  "currency_literal val =
     (case val of
        [] \<Rightarrow> False
      | c # r \<Rightarrow> c \<in> set [0x24, 0xA5, 0x20AC, 0xA3, 0xA7] \<and> r \<noteq> [] \<and> list_all numeric_char r)"

definition percent_literal :: "jsstring \<Rightarrow> bool" where
  "percent_literal val =
     (takeWhile numeric_char val \<noteq> [] \<and> dropWhile numeric_char val = js ''%'')"

definition degree_literal :: "jsstring \<Rightarrow> bool" where
  "degree_literal val =
     (takeWhile numeric_char val \<noteq> []
      \<and> (dropWhile numeric_char val = js ''deg'' \<or> dropWhile numeric_char val = js '' deg''))"

text \<open>The body of the loop over the cells of a row.\<close>

definition coerce_cell :: "bool \<Rightarrow> jsval option \<Rightarrow> jsval option" where
  "coerce_cell trim cell =
     (case cell of
        Some (VStr val0) \<Rightarrow>
          if \<not> isNaN (parseFloat val0) then Some (VNum (parseFloat val0))
          else if val0 \<noteq> []
          then (let val = (if trim then trim_string val0 else val0)
                in if val = js ''infinity'' \<or> val = js ''+infinity'' then Some (VNum PosInfinity)
                   else if val = js ''-infinity'' then Some (VNum NegInfinity)
                   else if val = js ''nil'' \<or> val = js ''null'' then Some VUndefined
                   else if val = js ''NaN'' \<or> val = js ''nan'' then Some (VNum NaN)
                   else if val = js ''TRUE'' \<or> val = js ''true'' then Some (VBool True)
                   else if val = js ''FALSE'' \<or> val = js ''false'' then Some (VBool False)
                   else if currency_literal val
                   then Some (VNum (parseFloat (substring val 1 (length val))))
                   else if percent_literal val
                   then Some (VNum (divided_by (parseFloat (substring val 0 (length val - 1))) 100))
                   else if degree_literal val
                   then Some (VNum (divided_by (times
                          (parseFloat (trim_string (substring val 0 (length val - 3)))) pi) 180))
                   else Some (VStr val))
          else cell
      | _ \<Rightarrow> cell)"

text \<open>
  \<^verbatim>\<open>Array.prototype.fill(value, start, end)\<close>: relative indices are clamped to the array,
  and the elements from \<open>start\<close> up to but not including \<open>end\<close> are set.
\<close>

definition relative_index :: "int \<Rightarrow> nat \<Rightarrow> nat" where
  "relative_index r len = (if r < 0 then nat (max (int len + r) 0) else min (nat r) len)"

definition array_fill :: "jsval option list \<Rightarrow> jsval \<Rightarrow> int \<Rightarrow> int \<Rightarrow> jsval option list" where
  "array_fill xs v start end =
     map (\<lambda>(i, x). if relative_index start (length xs) \<le> i \<and> i < relative_index end (length xs)
                    then Some v else x)
       (zip [0..<length xs] xs)"

text \<open>
  The end of the row loop: \<^verbatim>\<open>array.length = max\<close> extends the row with holes, then
  \<^verbatim>\<open>array.fill(old, max, '')\<close> is called with the value \<open>old\<close>, the start \<open>max\<close> and the
  end \<^verbatim>\<open>''\<close>, which converts to \<open>0\<close>.
\<close>

definition normalize_row :: "bool \<Rightarrow> nat \<Rightarrow> jsval option list \<Rightarrow> jsval option list" where
  "normalize_row trim mx row =
     (let array = map (coerce_cell trim) row
      in if length array < mx
         then array_fill (array @ replicate (mx - length array) None)
                (VNum (Num (real (length array)))) (int mx) 0
         else array)"

definition max_length :: "jsval option list list \<Rightarrow> nat" where
  "max_length data = foldl (\<lambda>mx row. max mx (length row)) 0 data"

definition parseCSV :: "jsstring \<Rightarrow> bool \<Rightarrow> jsval option list list option" where
  "parseCSV strData trim =
     (case exec_loop strData 0 [[]] of
        None \<Rightarrow> None
      | Some data \<Rightarrow> Some (map (normalize_row trim (max_length data)) data))"

section \<open>Properties\<close>

subsection \<open>The double remainder of \<^verbatim>\<open>animationFrame\<close>\<close>







lemma linear_search_le: "i \<le> length a \<Longrightarrow> linear_search a i f \<le> length a"
proof (induction a i f rule: linear_search.induct)
  case (1 a i f)
  show ?case
  proof (cases "i < length a \<and> frames (a ! i) \<le> f")
    case True
    then have "linear_search a i f = linear_search a (Suc i) (f - frames (a ! i))"
      by (subst linear_search.simps) simp
    with 1 True show ?thesis by simp
  next
    case False
    then have "linear_search a i f = i" by (subst linear_search.simps) auto
    with 1 show ?thesis by simp
  qed
qed















subsection \<open>Mirror variants\<close>






lemma create_sprite_result:
  "create_sprite tr d x y s =
     (next_addr s,
      s\<lparr>heap := (heap s)(next_addr s \<mapsto>
            new_sprite (if tr then y else x) (if tr then x else y) (lastSpriteID s) d),
        next_addr := Suc (next_addr s), lastSpriteID := lastSpriteID s + 3\<rparr>)"
  by (simp add: create_sprite_def alloc_def Let_def)






text \<open>
  Claim C3 on a sheet of two cells in one row, compiled from an empty store with
  \<^verbatim>\<open>lastSpriteID = 100\<close>: the cell loop advances the counter by 3, not 4, so the second
  sprite's orientation id 103 is also the orientation id of the first sprite's doubly
  flipped variant (object 4), which is a different object.
\<close>

theorem orientation_ids_collide:
  "(case compile_sprites False 1 2 1 (empty_sheet_state 100) of
      Inl e \<Rightarrow> False
    | Inr (grid, s') \<Rightarrow>
        grid = [[0], [1]]
        \<and> map_option orientation_id (heap s' 0) = Some 100
        \<and> Option.bind (get_x_flipped s' 0) (get_y_flipped s') = Some 4
        \<and> map_option orientation_id (heap s' 4) = Some 103
        \<and> map_option orientation_id (heap s' 1) = Some 103
        \<and> lastSpriteID s' = 106)"
  by (simp add: compile_sprites_def upt_rec[of 0] upt_rec[of 1] create_sprite_result
      empty_sheet_state_def numeral_2_eq_2
      flip_sprite_def then_do_def make_x_flipped_def make_y_flipped_def make_xy_flipped_def
      freeze_variants_def freeze_def alloc_def update_object_def new_sprite_def back_reference_def
      get_x_flipped_def get_y_flipped_def Let_def
      split del: if_split cong: let_weak_cong)

subsection \<open>The asset cache\<close>

lemmas loader_defs = loadFont_def loadSpritesheet_def loadSound_def loadMap_def
  new_object_def set_index_def

lemma load_hit:
  assumes "assetCache s (jsonURL_of c) = Some a"
  shows "fst (load mk c s) = Inr a"
    and "next_object (snd (load mk c s)) = next_object s"
    and "assetCache (snd (load mk c s)) = assetCache s"
  using assms
  by (cases c; simp add: loader_defs Let_def split: option.splits)+

lemma load_caches:
  assumes "fst (load mk c s) = Inr a"
  shows "assetCache (snd (load mk c s)) (jsonURL_of c) = Some a"
  using assms
  by (cases c; simp add: loader_defs Let_def split: option.splits if_splits list.splits)

lemma load_keeps:
  assumes "assetCache s u = Some a"
  shows "assetCache (snd (load mk c s)) u = Some a"
  using assms
  by (cases c; auto simp add: loader_defs Let_def split: option.splits if_splits list.splits)

lemma exec_events_keeps:
  assumes "assetCache s u = Some a"
  shows "assetCache (exec_events mk es s) u = Some a"
  using assms
proof (induction es arbitrary: s)
  case Nil
  then show ?case by simp
next
  case (Cons e es)
  have "assetCache (exec_event mk e s) u = Some a"
    using Cons.prems by (cases e) (simp_all add: load_keeps)
  then show ?case using Cons.IH by simp
qed

lemma set_index_jsonURL:
  "map_option asset_jsonURL (objects (set_index a n s) b) = map_option asset_jsonURL (objects s b)"
  by (simp add: set_index_def option.map_comp o_def)

lemma set_index_other:
  "next_object (set_index a n s) = next_object s" "assetCache (set_index a n s) = assetCache s"
  "spritesheetArray (set_index a n s) = spritesheetArray s" "fontArray (set_index a n s) = fontArray s"
  by (simp_all add: set_index_def)

lemma load_hit_jsonURL:
  assumes "assetCache s (jsonURL_of c) = Some a"
  shows "map_option asset_jsonURL (objects (snd (load mk c s)) b) = map_option asset_jsonURL (objects s b)"
proof (cases c)
  case (LoadFont name json u)
  then show ?thesis using assms by (simp add: loadFont_def set_index_jsonURL)
next
  case (LoadSpritesheet name json u cb)
  then show ?thesis using assms by (simp add: loadSpritesheet_def set_index_jsonURL Let_def)
next
  case (LoadSound name json u)
  then show ?thesis using assms by (simp add: loadSound_def)
next
  case (LoadMap name json u)
  then show ?thesis using assms
    by (simp add: loadMap_def set_index_jsonURL split: option.splits)
qed

lemma load_miss:
  assumes "assetCache s (jsonURL_of c) = None"
  shows "next_object (snd (load mk c s)) = Suc (next_object s)"
    and "map_option asset_jsonURL (objects (snd (load mk c s)) (next_object s)) = Some (jsonURL_of c)"
    and "assetCache (snd (load mk c s)) = (assetCache s)(jsonURL_of c \<mapsto> next_object s)"
    and "b \<noteq> next_object s \<Longrightarrow> objects (snd (load mk c s)) b = objects s b"
proof -
  have "next_object (snd (load mk c s)) = Suc (next_object s)
    \<and> map_option asset_jsonURL (objects (snd (load mk c s)) (next_object s)) = Some (jsonURL_of c)
    \<and> assetCache (snd (load mk c s)) = (assetCache s)(jsonURL_of c \<mapsto> next_object s)
    \<and> (b \<noteq> next_object s \<longrightarrow> objects (snd (load mk c s)) b = objects s b)"
  proof (cases c)
    case (LoadFont name json u)
    then show ?thesis using assms by (simp add: loadFont_def new_object_def)
  next
    case (LoadSpritesheet name json u cb)
    then show ?thesis using assms by (simp add: loadSpritesheet_def new_object_def)
  next
    case (LoadSound name json u)
    then show ?thesis using assms by (simp add: loadSound_def new_object_def)
  next
    case (LoadMap name json u)
    then show ?thesis using assms
      by (simp add: loadMap_def new_object_def Let_def split: option.splits list.splits)
  qed
  then show "next_object (snd (load mk c s)) = Suc (next_object s)"
    and "map_option asset_jsonURL (objects (snd (load mk c s)) (next_object s)) = Some (jsonURL_of c)"
    and "assetCache (snd (load mk c s)) = (assetCache s)(jsonURL_of c \<mapsto> next_object s)"
    and "b \<noteq> next_object s \<Longrightarrow> objects (snd (load mk c s)) b = objects s b"
    by simp_all
qed

lemma cached_since_alt:
  "cached_since n0 s \<longleftrightarrow>
     n0 \<le> next_object s \<and>
     (\<forall>a. n0 \<le> a \<and> a < next_object s \<longrightarrow>
        (\<exists>u. map_option asset_jsonURL (objects s a) = Some u \<and> assetCache s u = Some a))"
  unfolding cached_since_def by (intro conj_cong refl all_cong imp_cong) auto

lemma load_cached_since:
  assumes "cached_since n0 s"
  shows "cached_since n0 (snd (load mk c s))"
proof (cases "assetCache s (jsonURL_of c)")
  case (Some a)
  show ?thesis
    using assms
    unfolding cached_since_alt load_hit(2,3)[OF Some] load_hit_jsonURL[OF Some] .
next
  case None
  define n where "n = next_object s"
  note miss = load_miss[OF None, where mk=mk, folded n_def]
  show ?thesis
    unfolding cached_since_alt miss(1)
  proof (intro conjI allI impI)
    show "n0 \<le> Suc n" using assms by (simp add: cached_since_def n_def)
  next
    fix a assume a: "n0 \<le> a \<and> a < Suc n"
    show "\<exists>u. map_option asset_jsonURL (objects (snd (load mk c s)) a) = Some u \<and>
             assetCache (snd (load mk c s)) u = Some a"
    proof (cases "a = n")
      case True
      have "map_option asset_jsonURL (objects (snd (load mk c s)) a) = Some (jsonURL_of c)"
        using miss(2) True by simp
      moreover have "assetCache (snd (load mk c s)) (jsonURL_of c) = Some a"
        using True by (simp add: miss(3))
      ultimately show ?thesis by blast
    next
      case False
      then have "a < next_object s" using a by (simp add: n_def)
      with assms a obtain u where o: "map_option asset_jsonURL (objects s a) = Some u"
        "assetCache s u = Some a"
        unfolding cached_since_alt by blast
      then have "u \<noteq> jsonURL_of c" using None by auto
      then have "assetCache (snd (load mk c s)) u = Some a" using o(2) by (simp add: miss(3))
      moreover have "map_option asset_jsonURL (objects (snd (load mk c s)) a) = Some u"
        using o(1) miss(4)[OF False] by simp
      ultimately show ?thesis by blast
    qed
  qed
qed

lemma exec_event_cached_since:
  assumes "cached_since n0 s"
  shows "cached_since n0 (exec_event mk e s)"
proof (cases e)
  case (Call c)
  then show ?thesis using load_cached_since[OF assms] by simp
next
  case (MapSpritesheetLoaded m sh)
  have "map_option asset_jsonURL (objects (exec_event mk e s) b) = map_option asset_jsonURL (objects s b)" for b
    by (simp add: MapSpritesheetLoaded option.map_comp o_def)
  moreover have "next_object (exec_event mk e s) = next_object s"
    "assetCache (exec_event mk e s) = assetCache s"
    by (simp_all add: MapSpritesheetLoaded)
  ultimately show ?thesis using assms unfolding cached_since_alt by simp
qed

lemma exec_events_cached_since:
  assumes "cached_since n0 s"
  shows "cached_since n0 (exec_events mk es s)"
  using assms
  by (induction es arbitrary: s) (simp_all add: exec_event_cached_since)

lemma cached_since_start: "cached_since (next_object s) s"
  by (auto simp add: cached_since_def)

text \<open>
  Claim C2. A loader call whose \<^verbatim>\<open>jsonURL\<close> is already a key of the asset cache returns
  the cached reference itself and constructs nothing; once a call for a URL has returned an
  asset, every later call for that URL in the session, whatever happens in between,
  returns the same reference and constructs nothing; and the assets constructed during a
  session have pairwise different metadata URLs, so at most one is constructed per URL.
\<close>

theorem asset_cache_dedup:
  "(assetCache s (jsonURL_of c) = Some a \<longrightarrow>
      fst (load mk c s) = Inr a
      \<and> next_object (snd (load mk c s)) = next_object s
      \<and> assetCache (snd (load mk c s)) = assetCache s)
   \<and> (fst (load mk c1 s) = Inr a1 \<and> jsonURL_of c2 = jsonURL_of c1 \<longrightarrow>
      fst (load mk c2 (exec_events mk es (snd (load mk c1 s)))) = Inr a1
      \<and> next_object (snd (load mk c2 (exec_events mk es (snd (load mk c1 s)))))
          = next_object (exec_events mk es (snd (load mk c1 s))))
   \<and> (next_object s \<le> x \<and> x < next_object (exec_events mk es s)
      \<and> next_object s \<le> y \<and> y < next_object (exec_events mk es s)
      \<and> map_option asset_jsonURL (objects (exec_events mk es s) x)
          = map_option asset_jsonURL (objects (exec_events mk es s) y) \<longrightarrow> x = y)"
proof (intro conjI impI)
  assume "assetCache s (jsonURL_of c) = Some a"
  then show "fst (load mk c s) = Inr a"
    and "next_object (snd (load mk c s)) = next_object s"
    and "assetCache (snd (load mk c s)) = assetCache s"
    by (rule load_hit)+
next
  assume h: "fst (load mk c1 s) = Inr a1 \<and> jsonURL_of c2 = jsonURL_of c1"
  define s2 where "s2 = exec_events mk es (snd (load mk c1 s))"
  have "assetCache (snd (load mk c1 s)) (jsonURL_of c1) = Some a1"
    using h by (simp add: load_caches)
  then have hit: "assetCache s2 (jsonURL_of c2) = Some a1"
    unfolding s2_def using h by (simp add: exec_events_keeps)
  show "fst (load mk c2 (exec_events mk es (snd (load mk c1 s)))) = Inr a1"
    unfolding s2_def[symmetric] by (rule load_hit(1)[OF hit])
  show "next_object (snd (load mk c2 (exec_events mk es (snd (load mk c1 s)))))
          = next_object (exec_events mk es (snd (load mk c1 s)))"
    unfolding s2_def[symmetric] by (rule load_hit(2)[OF hit])
next
  define s' where "s' = exec_events mk es s"
  assume "next_object s \<le> x \<and> x < next_object (exec_events mk es s)
      \<and> next_object s \<le> y \<and> y < next_object (exec_events mk es s)
      \<and> map_option asset_jsonURL (objects (exec_events mk es s) x)
          = map_option asset_jsonURL (objects (exec_events mk es s) y)"
  then have r: "next_object s \<le> x" "x < next_object s'" "next_object s \<le> y" "y < next_object s'"
    "map_option asset_jsonURL (objects s' x) = map_option asset_jsonURL (objects s' y)"
    by (simp_all add: s'_def)
  have inv: "cached_since (next_object s) s'"
    unfolding s'_def by (rule exec_events_cached_since[OF cached_since_start])
  from inv r(1,2) obtain u where u: "map_option asset_jsonURL (objects s' x) = Some u"
    "assetCache s' u = Some x" unfolding cached_since_alt by blast
  from inv r(3,4) obtain v where v: "map_option asset_jsonURL (objects s' y) = Some v"
    "assetCache s' v = Some y" unfolding cached_since_alt by blast
  from u(1) v(1) r(5) have "u = v" by simp
  with u(2) v(2) show "x = y" by simp
qed

theorem asset_cache_dedup_witness:
  "fst (load (\<lambda>parent child. child)
          (LoadSpritesheet (js ''hero'') \<lparr>url = js ''hero.png'', sprite_url = None, sprite_url_table = None\<rparr>
             (js ''hero.sprite.json'') False) empty_load_state) = Inr 0
   \<and> jsonURL_of (LoadSpritesheet (js ''enemy'') \<lparr>url = js ''hero.png'', sprite_url = None, sprite_url_table = None\<rparr>
             (js ''hero.sprite.json'') True)
      = jsonURL_of (LoadSpritesheet (js ''hero'') \<lparr>url = js ''hero.png'', sprite_url = None, sprite_url_table = None\<rparr>
             (js ''hero.sprite.json'') False)
   \<and> fst (load (\<lambda>parent child. child)
          (LoadSpritesheet (js ''enemy'') \<lparr>url = js ''hero.png'', sprite_url = None, sprite_url_table = None\<rparr>
             (js ''hero.sprite.json'') True)
          (exec_events (\<lambda>parent child. child)
             [Call (LoadSound (js ''jump'') \<lparr>url = js ''jump.mp3'', sprite_url = None, sprite_url_table = None\<rparr>
                (js ''jump.sound.json''))]
             (snd (load (\<lambda>parent child. child)
                (LoadSpritesheet (js ''hero'') \<lparr>url = js ''hero.png'', sprite_url = None, sprite_url_table = None\<rparr>
                   (js ''hero.sprite.json'') False) empty_load_state)))) = Inr 0
   \<and> assetCache (snd (load (\<lambda>parent child. child)
          (LoadSpritesheet (js ''hero'') \<lparr>url = js ''hero.png'', sprite_url = None, sprite_url_table = None\<rparr>
             (js ''hero.sprite.json'') False) empty_load_state))
        (jsonURL_of (LoadSpritesheet (js ''enemy'') \<lparr>url = js ''hero.png'', sprite_url = None, sprite_url_table = None\<rparr>
             (js ''hero.sprite.json'') True)) = Some 0
   \<and> next_object (snd (load (\<lambda>parent child. child)
          (LoadSpritesheet (js ''enemy'') \<lparr>url = js ''hero.png'', sprite_url = None, sprite_url_table = None\<rparr>
             (js ''hero.sprite.json'') True)
          (snd (load (\<lambda>parent child. child)
             (LoadSpritesheet (js ''hero'') \<lparr>url = js ''hero.png'', sprite_url = None, sprite_url_table = None\<rparr>
                (js ''hero.sprite.json'') False) empty_load_state)))) = 1"
proof -
  define mk :: "jsstring \<Rightarrow> jsstring \<Rightarrow> jsstring" where "mk = (\<lambda>parent child. child)"
  define j where "j = \<lparr>url = js ''hero.png'', sprite_url = None, sprite_url_table = None\<rparr>"
  define c1 where "c1 = LoadSpritesheet (js ''hero'') j (js ''hero.sprite.json'') False"
  define c2 where "c2 = LoadSpritesheet (js ''enemy'') j (js ''hero.sprite.json'') True"
  define es where "es = [Call (LoadSound (js ''jump'')
      \<lparr>url = js ''jump.mp3'', sprite_url = None, sprite_url_table = None\<rparr> (js ''jump.sound.json''))]"
  have 1: "fst (load mk c1 empty_load_state) = Inr 0"
    by (simp add: c1_def loadSpritesheet_def new_object_def empty_load_state_def)
  have 2: "jsonURL_of c2 = jsonURL_of c1" by (simp add: c1_def c2_def)
  note T = asset_cache_dedup [of empty_load_state c1 0 mk c1 0 c2 es 0 0]
  have "fst (load mk c2 (exec_events mk es (snd (load mk c1 empty_load_state)))) = Inr 0"
    using T 1 2 by blast
  moreover have 3: "assetCache (snd (load mk c1 empty_load_state)) (jsonURL_of c2) = Some 0"
    by (simp add: c1_def c2_def loadSpritesheet_def new_object_def empty_load_state_def)
  moreover have n: "next_object (snd (load mk c1 empty_load_state)) = 1"
    by (simp add: c1_def loadSpritesheet_def new_object_def empty_load_state_def)
  moreover have "next_object (snd (load mk c2 (snd (load mk c1 empty_load_state)))) = 1"
    using asset_cache_dedup [of "snd (load mk c1 empty_load_state)" c2 0 mk c1 0 c2 es 0 0] 3 n
    by simp
  ultimately show ?thesis
    using 1 2 unfolding mk_def j_def c1_def c2_def es_def by blast
qed

subsection \<open>The start mode\<close>








subsection \<open>Reference chains\<close>

lemma chain_walk_stuck:
  assumes run: "chain_walk table seen p d = Some y"
  shows "seen = [js ''A'']
      \<and> table (js ''B'') = Some (reference_to (js ''C''))
      \<and> table (js ''C'') = Some (reference_to (js ''B''))
     \<longrightarrow> d \<noteq> reference_to (js ''B'') \<and> d \<noteq> reference_to (js ''C'')"
proof (rule chain_walk.raw_induct[where P = "\<lambda>table seen p d y.
     seen = [js ''A'']
      \<and> table (js ''B'') = Some (reference_to (js ''C''))
      \<and> table (js ''C'') = Some (reference_to (js ''B''))
     \<longrightarrow> d \<noteq> reference_to (js ''B'') \<and> d \<noteq> reference_to (js ''C'')", OF _ run])
  fix f :: "(jsstring \<Rightarrow> const_decl option) \<Rightarrow> jsstring list \<Rightarrow> jsstring \<Rightarrow> const_decl
     \<Rightarrow> (reference_error + jsstring \<times> jsstring) option"
  fix table :: "jsstring \<Rightarrow> const_decl option" and seen :: "jsstring list"
    and p :: jsstring and d :: const_decl and y :: "reference_error + jsstring \<times> jsstring"
  assume IH: "\<And>table seen p d y. f table seen p d = Some y \<Longrightarrow>
     seen = [js ''A'']
      \<and> table (js ''B'') = Some (reference_to (js ''C''))
      \<and> table (js ''C'') = Some (reference_to (js ''B''))
     \<longrightarrow> d \<noteq> reference_to (js ''B'') \<and> d \<noteq> reference_to (js ''C'')"
  assume step: "(let ident = cvalue d; path1 = p @ arrow @ ident
      in if ident \<in> set seen
         then Some (Inl (Cycle (js ''Cycle in reference chain: '' @ path1)))
         else case table ident of None \<Rightarrow> Some (Inr (ident, path1))
              | Some d \<Rightarrow>
                  if ctype d = js ''reference''
                  then f table seen path1 d
                  else Some (Inr (ident, path1))) = Some y"
  have ne: "js ''B'' \<noteq> js ''A''" "js ''C'' \<noteq> js ''A''" by (simp_all add: js_def)
  show "seen = [js ''A'']
      \<and> table (js ''B'') = Some (reference_to (js ''C''))
      \<and> table (js ''C'') = Some (reference_to (js ''B''))
     \<longrightarrow> d \<noteq> reference_to (js ''B'') \<and> d \<noteq> reference_to (js ''C'')"
  proof (intro impI, rule ccontr)
    assume h: "seen = [js ''A'']
      \<and> table (js ''B'') = Some (reference_to (js ''C''))
      \<and> table (js ''C'') = Some (reference_to (js ''B''))"
    assume "\<not> (d \<noteq> reference_to (js ''B'') \<and> d \<noteq> reference_to (js ''C''))"
    then consider "d = reference_to (js ''B'')" | "d = reference_to (js ''C'')" by blast
    then show False
    proof cases
      case 1
      with step h ne have "f table seen (p @ arrow @ js ''B'') (reference_to (js ''C'')) = Some y"
        by (simp add: reference_to_def Let_def)
      from IH[OF this] h show False by simp
    next
      case 2
      with step h ne have "f table seen (p @ arrow @ js ''C'') (reference_to (js ''B'')) = Some y"
        by (simp add: reference_to_def Let_def)
      from IH[OF this] h show False by simp
    qed
  qed
qed

text \<open>
  Claim C1 on the table \<open>A \<rightarrow> B\<close>, \<open>B \<rightarrow> C\<close>, \<open>C \<rightarrow> B\<close>: the walk from \<open>A\<close> never
  meets \<open>A\<close> again and never leaves the references, so it does not return, and neither
  does the pass over the sorted keys.
\<close>

theorem reference_walk_diverges:
  "chain_walk
     [js ''A'' \<mapsto> reference_to (js ''B''), js ''B'' \<mapsto> reference_to (js ''C''),
      js ''C'' \<mapsto> reference_to (js ''B'')]
     [js ''A''] (js ''A'') (reference_to (js ''B'')) = None
   \<and> resolve_references
     [js ''A'' \<mapsto> reference_to (js ''B''), js ''B'' \<mapsto> reference_to (js ''C''),
      js ''C'' \<mapsto> reference_to (js ''B'')]
     [] [js ''A'', js ''B'', js ''C''] Map.empty = None"
proof -
  define T where "T = [js ''A'' \<mapsto> reference_to (js ''B''), js ''B'' \<mapsto> reference_to (js ''C''),
      js ''C'' \<mapsto> reference_to (js ''B'')]"
  have T: "T (js ''A'') = Some (reference_to (js ''B''))"
    "T (js ''B'') = Some (reference_to (js ''C''))"
    "T (js ''C'') = Some (reference_to (js ''B''))"
    by (simp_all add: T_def js_def)
  have w: "chain_walk T [js ''A''] (js ''A'') (reference_to (js ''B'')) = None"
  proof (cases "chain_walk T [js ''A''] (js ''A'') (reference_to (js ''B''))")
    case None
    then show ?thesis .
  next
    case (Some y)
    from chain_walk_stuck[OF Some] T show ?thesis by simp
  qed
  have "resolve_references T [] [js ''A'', js ''B'', js ''C''] Map.empty = None"
    by (simp add: resolve_reference_def T(1) w reference_to_def[of "js ''B''", symmetric])
      (simp add: reference_to_def)
  then show ?thesis using w unfolding T_def by simp
qed

text \<open>
  The cycle that does come back to its start is reported with its full path:
  \<open>A \<rightarrow> B\<close>, \<open>B \<rightarrow> A\<close>.
\<close>

lemma two_cycle_reported:
  "chain_walk [js ''A'' \<mapsto> reference_to (js ''B''), js ''B'' \<mapsto> reference_to (js ''A'')]
     [js ''A''] (js ''A'') (reference_to (js ''B''))
   = Some (Inl (Cycle (js ''Cycle in reference chain: '' @ js ''A'' @ arrow @ js ''B'' @ arrow @ js ''A'')))"
  apply (subst chain_walk.simps)
  apply (simp add: reference_to_def js_def Let_def)
  apply (subst chain_walk.simps)
  apply (simp add: Let_def js_def)
  done

subsection \<open>Named constants of the literal parser\<close>

lemmas parseFloat_defs = parseFloat_def unsigned_literal_def is_space_def is_digit_def
  digits_value_def decimal_value_def exponent_part_def exponent_digits_def negate_def

lemma parse_bare_token:
  assumes "token \<noteq> []" and "set token \<inter> set separators = {}"
  shows "parse (Suc n) token 0 = Some (Inr (parse_token (map to_lower token), length token))"
proof -
  have all: "takeWhile (\<lambda>c. c \<notin> set separators) token = token"
    using assms(2) by (auto simp: takeWhile_eq_all_conv)
  have e: "regexIndexOf token separators 0 = length token"
    by (simp add: regexIndexOf_def skip_while_def all)
  have "hd token \<in> set token" using assms(1) by simp
  then have hd: "hd token \<notin> set separators" using assms(2) by blast
  then have c: "token ! 0 \<notin> set blank" "token ! 0 \<noteq> 0x22" "token ! 0 \<noteq> 0x5B" "token ! 0 \<noteq> 0x7B"
    using assms(1) by (auto simp: hd_conv_nth separators_def blank_def js_def)
  show ?thesis
    using assms(1) c by (simp add: Let_def e substring_def)
qed

lemma lookup_quarter_pi:
  "map_of named_constants [0xBC, 0x3C0] = Some (VNum (Num (pi / 4)))"
  "map_of named_constants (0xBC # js ''pi'') = Some (VNum (Num (pi / 4)))"
  "map_of named_constants [0x2B, 0xBC, 0x3C0] = Some (VNum (Num (pi / 4)))"
  "map_of named_constants (0x2B # 0xBC # js ''pi'') = Some (VNum (Num (pi / 4)))"
  "map_of named_constants [0x2D, 0xBC, 0x3C0] = Some (VNum (Num (- pi / 4)))"
  "map_of named_constants (0x2D # 0xBC # js ''pi'') = Some (VNum (Num (- pi / 4)))"
  by (simp_all add: named_constants_def js_def)

lemma lookup_three_quarter_pi:
  "map_of named_constants [0xBE, 0x3C0] = Some (VNum (Num (pi * 3 / 4)))"
  "map_of named_constants (0xBE # js ''pi'') = Some (VNum (Num (pi * 3 / 4)))"
  "map_of named_constants [0x2B, 0xBE, 0x3C0] = Some (VNum (Num (pi * 3 / 4)))"
  "map_of named_constants (0x2B # 0xBE # js ''pi'') = Some (VNum (Num (pi * 3 / 4)))"
  "map_of named_constants [0x2D, 0xBE, 0x3C0] = Some (VNum (Num (- pi * 3 / 4)))"
  "map_of named_constants (0x2D # 0xBE # js ''pi'') = Some (VNum (Num (- pi * 3 / 4)))"
  by (simp_all add: named_constants_def js_def)

lemma lookup_half_pi:
  "map_of named_constants [0xBD, 0x3C0] = Some (VNum (Num (pi / 4)))"
  "map_of named_constants [0x2D, 0xBD, 0x3C0] = Some (VNum (Num (- pi / 4)))"
  by (simp_all add: named_constants_def js_def)

lemma lookup_third_pi:
  "map_of named_constants [0x2153, 0x3C0] = None"
  by (simp add: named_constants_def js_def)

lemma parse_named:
  assumes "token \<noteq> []" and "set token \<inter> set separators = {}"
    and "map to_lower token = token" and "map_of named_constants token = Some v"
  shows "parse (Suc n) token 0 = Some (Inr (v, length token))"
  using parse_bare_token[OF assms(1,2)] assms(3,4) by (simp add: parse_token_def)

text \<open>
  Claim C6, as amended. For the glyphs \<open>\<onequarter>\<close> (value 1/4) and \<open>\<threequarters>\<close> (value 3/4),
  the bare token formed by the glyph followed by \<open>\<pi>\<close> or by \<^verbatim>\<open>pi\<close>, with or without a
  leading plus sign, parses to the value times \<open>\<pi>\<close>, and the token with a leading minus
  sign parses to minus the value times \<open>\<pi>\<close>; in particular \<^verbatim>\<open>-\<onequarter>\<pi>\<close> parses to
  \<open>-\<pi>/4\<close>. This holds for any fuel of at least one. Nothing is stated about the glyph
  \<open>\<onehalf>\<close>.
\<close>

theorem quarter_fractions_of_pi:
  "parse (Suc n) [0xBC, 0x3C0] 0 = Some (Inr (VNum (Num (1 / 4 * pi)), 2))
   \<and> parse (Suc n) (0xBC # js ''pi'') 0 = Some (Inr (VNum (Num (1 / 4 * pi)), 3))
   \<and> parse (Suc n) [0x2B, 0xBC, 0x3C0] 0 = Some (Inr (VNum (Num (1 / 4 * pi)), 3))
   \<and> parse (Suc n) (0x2B # 0xBC # js ''pi'') 0 = Some (Inr (VNum (Num (1 / 4 * pi)), 4))
   \<and> parse (Suc n) [0x2D, 0xBC, 0x3C0] 0 = Some (Inr (VNum (Num (- (1 / 4 * pi))), 3))
   \<and> parse (Suc n) (0x2D # 0xBC # js ''pi'') 0 = Some (Inr (VNum (Num (- (1 / 4 * pi))), 4))
   \<and> parse (Suc n) [0xBE, 0x3C0] 0 = Some (Inr (VNum (Num (3 / 4 * pi)), 2))
   \<and> parse (Suc n) (0xBE # js ''pi'') 0 = Some (Inr (VNum (Num (3 / 4 * pi)), 3))
   \<and> parse (Suc n) [0x2B, 0xBE, 0x3C0] 0 = Some (Inr (VNum (Num (3 / 4 * pi)), 3))
   \<and> parse (Suc n) (0x2B # 0xBE # js ''pi'') 0 = Some (Inr (VNum (Num (3 / 4 * pi)), 4))
   \<and> parse (Suc n) [0x2D, 0xBE, 0x3C0] 0 = Some (Inr (VNum (Num (- (3 / 4 * pi))), 3))
   \<and> parse (Suc n) (0x2D # 0xBE # js ''pi'') 0 = Some (Inr (VNum (Num (- (3 / 4 * pi))), 4))"
proof -
  have sep: "set [0xBC, 0x3C0] \<inter> set separators = {}"
    "set (0xBC # js ''pi'') \<inter> set separators = {}"
    "set [0x2B, 0xBC, 0x3C0] \<inter> set separators = {}"
    "set (0x2B # 0xBC # js ''pi'') \<inter> set separators = {}"
    "set [0x2D, 0xBC, 0x3C0] \<inter> set separators = {}"
    "set (0x2D # 0xBC # js ''pi'') \<inter> set separators = {}"
    "set [0xBE, 0x3C0] \<inter> set separators = {}"
    "set (0xBE # js ''pi'') \<inter> set separators = {}"
    "set [0x2B, 0xBE, 0x3C0] \<inter> set separators = {}"
    "set (0x2B # 0xBE # js ''pi'') \<inter> set separators = {}"
    "set [0x2D, 0xBE, 0x3C0] \<inter> set separators = {}"
    "set (0x2D # 0xBE # js ''pi'') \<inter> set separators = {}"
    by (simp_all add: separators_def js_def)
  have low: "map to_lower [0xBC, 0x3C0] = [0xBC, 0x3C0]"
    "map to_lower (0xBC # js ''pi'') = 0xBC # js ''pi''"
    "map to_lower [0x2B, 0xBC, 0x3C0] = [0x2B, 0xBC, 0x3C0]"
    "map to_lower (0x2B # 0xBC # js ''pi'') = 0x2B # 0xBC # js ''pi''"
    "map to_lower [0x2D, 0xBC, 0x3C0] = [0x2D, 0xBC, 0x3C0]"
    "map to_lower (0x2D # 0xBC # js ''pi'') = 0x2D # 0xBC # js ''pi''"
    "map to_lower [0xBE, 0x3C0] = [0xBE, 0x3C0]"
    "map to_lower (0xBE # js ''pi'') = 0xBE # js ''pi''"
    "map to_lower [0x2B, 0xBE, 0x3C0] = [0x2B, 0xBE, 0x3C0]"
    "map to_lower (0x2B # 0xBE # js ''pi'') = 0x2B # 0xBE # js ''pi''"
    "map to_lower [0x2D, 0xBE, 0x3C0] = [0x2D, 0xBE, 0x3C0]"
    "map to_lower (0x2D # 0xBE # js ''pi'') = 0x2D # 0xBE # js ''pi''"
    by (simp_all add: to_lower_def js_def)
  note q = lookup_quarter_pi and t = lookup_three_quarter_pi
  have "parse (Suc n) [0xBC, 0x3C0] 0 = Some (Inr (VNum (Num (1 / 4 * pi)), 2))"
    using parse_named[OF _ sep(1) low(1) q(1), of n] by simp
  moreover have "parse (Suc n) (0xBC # js ''pi'') 0 = Some (Inr (VNum (Num (1 / 4 * pi)), 3))"
    using parse_named[OF _ sep(2) low(2) q(2), of n] by (simp add: js_def)
  moreover have "parse (Suc n) [0x2B, 0xBC, 0x3C0] 0 = Some (Inr (VNum (Num (1 / 4 * pi)), 3))"
    using parse_named[OF _ sep(3) low(3) q(3), of n] by simp
  moreover have "parse (Suc n) (0x2B # 0xBC # js ''pi'') 0 = Some (Inr (VNum (Num (1 / 4 * pi)), 4))"
    using parse_named[OF _ sep(4) low(4) q(4), of n] by (simp add: js_def)
  moreover have "parse (Suc n) [0x2D, 0xBC, 0x3C0] 0 = Some (Inr (VNum (Num (- (1 / 4 * pi))), 3))"
    using parse_named[OF _ sep(5) low(5) q(5), of n] by simp
  moreover have "parse (Suc n) (0x2D # 0xBC # js ''pi'') 0 = Some (Inr (VNum (Num (- (1 / 4 * pi))), 4))"
    using parse_named[OF _ sep(6) low(6) q(6), of n] by (simp add: js_def)
  moreover have "parse (Suc n) [0xBE, 0x3C0] 0 = Some (Inr (VNum (Num (3 / 4 * pi)), 2))"
    using parse_named[OF _ sep(7) low(7) t(1), of n] by simp
  moreover have "parse (Suc n) (0xBE # js ''pi'') 0 = Some (Inr (VNum (Num (3 / 4 * pi)), 3))"
    using parse_named[OF _ sep(8) low(8) t(2), of n] by (simp add: js_def)
  moreover have "parse (Suc n) [0x2B, 0xBE, 0x3C0] 0 = Some (Inr (VNum (Num (3 / 4 * pi)), 3))"
    using parse_named[OF _ sep(9) low(9) t(3), of n] by simp
  moreover have "parse (Suc n) (0x2B # 0xBE # js ''pi'') 0 = Some (Inr (VNum (Num (3 / 4 * pi)), 4))"
    using parse_named[OF _ sep(10) low(10) t(4), of n] by (simp add: js_def)
  moreover have "parse (Suc n) [0x2D, 0xBE, 0x3C0] 0 = Some (Inr (VNum (Num (- (3 / 4 * pi))), 3))"
    using parse_named[OF _ sep(11) low(11) t(5), of n] by simp
  moreover have "parse (Suc n) (0x2D # 0xBE # js ''pi'') 0 = Some (Inr (VNum (Num (- (3 / 4 * pi))), 4))"
    using parse_named[OF _ sep(12) low(12) t(6), of n] by (simp add: js_def)
  ultimately show ?thesis by blast
qed

theorem third_of_pi_counterexample:
  "parse (Suc 0) [0x2153, 0x3C0] 0 = Some (Inr (VNum NaN, 2))
   \<and> parse (Suc 0) [0x2153, 0x3C0] 0 \<noteq> Some (Inr (VNum (Num (1 / 3 * pi)), 2))"
proof -
  have sep: "set [0x2153, 0x3C0] \<inter> set separators = {}"
    by (simp add: separators_def js_def)
  have "parse_token (map to_lower [0x2153, 0x3C0]) = VNum NaN"
    by (simp add: parse_token_def to_lower_def lookup_third_pi ends_with_def js_def parseFloat_defs)
  then have "parse (Suc 0) [0x2153, 0x3C0] 0 = Some (Inr (VNum NaN, 2))"
    using parse_bare_token[OF _ sep, of 0] by simp
  then show ?thesis by simp
qed

text \<open>
  The entries for \<open>\<onehalf>\<pi>\<close> repeat the value of the line above them: the token parses to
  \<open>\<pi>/4\<close>, not \<open>\<pi>/2\<close>.
\<close>

lemma half_pi_parses_to_quarter_pi:
  "parse (Suc n) [0xBD, 0x3C0] 0 = Some (Inr (VNum (Num (pi / 4)), 2))"
  "parse (Suc n) [0x2D, 0xBD, 0x3C0] 0 = Some (Inr (VNum (Num (- pi / 4)), 3))"
proof -
  have sep: "set [0xBD, 0x3C0] \<inter> set separators = {}"
    "set [0x2D, 0xBD, 0x3C0] \<inter> set separators = {}"
    by (simp_all add: separators_def js_def)
  have low: "map to_lower [0xBD, 0x3C0] = [0xBD, 0x3C0]"
    "map to_lower [0x2D, 0xBD, 0x3C0] = [0x2D, 0xBD, 0x3C0]"
    by (simp_all add: to_lower_def)
  show "parse (Suc n) [0xBD, 0x3C0] 0 = Some (Inr (VNum (Num (pi / 4)), 2))"
    using parse_named[OF _ sep(1) low(1) lookup_half_pi(1), of n] by simp
  show "parse (Suc n) [0x2D, 0xBD, 0x3C0] 0 = Some (Inr (VNum (Num (- pi / 4)), 3))"
    using parse_named[OF _ sep(2) low(2) lookup_half_pi(2), of n] by simp
qed

subsection \<open>The tabular parser\<close>

lemmas csv_defs = regex_exec_def match_delimiter_def field_end_def push_match_def substring_def
  js_def Let_def

lemmas coerce_defs = coerce_cell_def isNaN_def currency_literal_def percent_literal_def
  degree_literal_def numeric_char_def trim_string_def substring_def divided_by_def times_def

lemma rows_percent: "exec_loop (js ''75%'') 0 [[]] = Some [[Some (VStr (js ''75%''))]]"
  apply (subst exec_loop.simps)
  apply (simp add: csv_defs)
  apply (subst exec_loop.simps)
  apply (simp add: csv_defs)
  done

lemma rows_degree: "exec_loop (js ''45deg'') 0 [[]] = Some [[Some (VStr (js ''45deg''))]]"
  apply (subst exec_loop.simps)
  apply (simp add: csv_defs)
  apply (subst exec_loop.simps)
  apply (simp add: csv_defs)
  done

lemma rows_currency: "exec_loop (js ''$12.50'') 0 [[]] = Some [[Some (VStr (js ''$12.50''))]]"
  apply (subst exec_loop.simps)
  apply (simp add: csv_defs)
  apply (subst exec_loop.simps)
  apply (simp add: csv_defs)
  done

lemma coerce_percent: "coerce_cell True (Some (VStr (js ''75%''))) = Some (VNum (Num 75))"
  by (simp add: coerce_defs parseFloat_defs js_def)

lemma coerce_degree: "coerce_cell True (Some (VStr (js ''45deg''))) = Some (VNum (Num 45))"
  by (simp add: coerce_defs parseFloat_defs js_def)

lemma coerce_currency: "coerce_cell True (Some (VStr (js ''$12.50''))) = Some (VNum (Num 12.5))"
  by (simp add: coerce_defs parseFloat_defs js_def)

text \<open>
  Claim C5 on the cells \<^verbatim>\<open>75%\<close> and \<^verbatim>\<open>45deg\<close>: \<^verbatim>\<open>parseFloat\<close> reads the leading
  digits of both, so the first test of the coercion pass already turns them into 75 and 45
  and the percent and degree cases are never reached. The cell \<^verbatim>\<open>$12.50\<close> does become
  12.5.
\<close>

theorem csv_percent_and_degree_not_unwrapped:
  "parseCSV (js ''75%'') True = Some [[Some (VNum (Num 75))]]
   \<and> parseCSV (js ''45deg'') True = Some [[Some (VNum (Num 45))]]
   \<and> parseCSV (js ''$12.50'') True = Some [[Some (VNum (Num 12.5))]]"
  by (simp add: parseCSV_def rows_percent rows_degree rows_currency max_length_def normalize_row_def
      coerce_percent coerce_degree coerce_currency)

lemma rows_ragged:
  "exec_loop (js ''a,b'' @ [0x0A] @ js ''c'') 0 [[]]
   = Some [[Some (VStr (js ''a'')), Some (VStr (js ''b''))], [Some (VStr (js ''c''))]]"
  apply (subst exec_loop.simps)
  apply (simp add: csv_defs)
  apply (subst exec_loop.simps)
  apply (simp add: csv_defs)
  apply (subst exec_loop.simps)
  apply (simp add: csv_defs)
  apply (subst exec_loop.simps)
  apply (simp add: csv_defs)
  done

lemma coerce_letters:
  "coerce_cell True (Some (VStr (js ''a''))) = Some (VStr (js ''a''))"
  "coerce_cell True (Some (VStr (js ''b''))) = Some (VStr (js ''b''))"
  "coerce_cell True (Some (VStr (js ''c''))) = Some (VStr (js ''c''))"
  by (simp_all add: coerce_defs parseFloat_defs is_space_def js_def)

text \<open>
  Claim C8 on the text \<^verbatim>\<open>a,b\<close>, line feed, \<^verbatim>\<open>c\<close>: the second row is extended to the
  length of the first, but \<^verbatim>\<open>fill\<close> is called with its arguments in the wrong order and
  sets nothing, so the new second cell is a hole and not the empty string.
\<close>

theorem csv_padding_leaves_holes:
  "parseCSV (js ''a,b'' @ [0x0A] @ js ''c'') True
   = Some [[Some (VStr (js ''a'')), Some (VStr (js ''b''))], [Some (VStr (js ''c'')), None]]"
  unfolding parseCSV_def rows_ragged
  by (simp add: max_length_def normalize_row_def coerce_letters array_fill_def relative_index_def)

lemma max_length_ge_aux: "m \<le> foldl (\<lambda>mx row. max mx (length row)) m data"
proof (induction data arbitrary: m)
  case Nil
  then show ?case by simp
next
  case (Cons r data)
  have "m \<le> max m (length r)" by simp
  also have "\<dots> \<le> foldl (\<lambda>mx row. max mx (length row)) (max m (length r)) data"
    by (rule Cons.IH)
  finally show ?case by simp
qed

lemma max_length_ge_row:
  "row \<in> set data \<Longrightarrow> length row \<le> foldl (\<lambda>mx row. max mx (length row)) m data"
proof (induction data arbitrary: m)
  case Nil
  then show ?case by simp
next
  case (Cons r data)
  show ?case
  proof (cases "row = r")
    case True
    have "length r \<le> max m (length r)" by simp
    also have "\<dots> \<le> foldl (\<lambda>mx row. max mx (length row)) (max m (length r)) data"
      by (rule max_length_ge_aux)
    finally show ?thesis using True by simp
  next
    case False
    then show ?thesis using Cons by simp
  qed
qed

lemma normalize_row_length:
  "length row \<le> mx \<Longrightarrow> length (normalize_row trim mx row) = mx"
  by (simp add: normalize_row_def array_fill_def Let_def)

text \<open>The rows of the grid that \<^verbatim>\<open>parseCSV\<close> returns all have the maximum length.\<close>

lemma parseCSV_rows_uniform:
  assumes "parseCSV strData trim = Some grid" and "row \<in> set grid"
  shows "length row = foldl max 0 (map length grid)"
proof -
  from assms(1) obtain data where d: "exec_loop strData 0 [[]] = Some data"
    "grid = map (normalize_row trim (max_length data)) data"
    by (auto simp: parseCSV_def split: option.splits)
  have len: "length r = max_length data" if "r \<in> set grid" for r
  proof -
    from that d(2) obtain r0 where "r0 \<in> set data" "r = normalize_row trim (max_length data) r0"
      by auto
    then show ?thesis
      using normalize_row_length[of r0 "max_length data" trim] max_length_ge_row[of r0 data 0]
      by (simp add: max_length_def)
  qed
  have "foldl max m (map length grid) = max m (max_length data)" if "grid \<noteq> []" for m
    using that len
  proof (induction grid arbitrary: m)
    case Nil
    then show ?case by simp
  next
    case (Cons r grid)
    show ?case
    proof (cases "grid = []")
      case True
      then show ?thesis using Cons.prems(2)[of r] by simp
    next
      case False
      then show ?thesis using Cons.IH[OF False, of "max m (length r)"] Cons.prems(2) by simp
    qed
  qed
  then have "foldl max 0 (map length grid) = max_length data"
    using assms(2) by (cases "grid = []") auto
  then show ?thesis using len[OF assms(2)] by simp
qed

text \<open>
  On the empty text the first match is empty and \<^verbatim>\<open>lastIndex\<close> stays at 0, so the
  \<^verbatim>\<open>exec\<close> loop never returns.
\<close>

lemma exec_loop_empty_text:
  "exec_loop [] 0 data = None"
proof (cases "exec_loop [] 0 data")
  case None
  then show ?thesis .
next
  case (Some y)
  have "strData \<noteq> [] \<or> lastIndex \<noteq> 0"
    if "exec_loop strData lastIndex d = Some z" for strData lastIndex d z
    using that
  proof (rule exec_loop.raw_induct[where P = "\<lambda>strData lastIndex d z. strData \<noteq> [] \<or> lastIndex \<noteq> 0",
        rotated])
    fix f :: "jsstring \<Rightarrow> nat \<Rightarrow> jsval option list list \<Rightarrow> jsval option list list option"
    fix strData :: jsstring and lastIndex :: nat and d z :: "jsval option list list"
    assume IH: "\<And>strData lastIndex d z. f strData lastIndex d = Some z \<Longrightarrow> strData \<noteq> [] \<or> lastIndex \<noteq> 0"
    assume step: "(case regex_exec strData lastIndex of None \<Rightarrow> Some d
         | Some m \<Rightarrow> f strData (match_end m) (push_match d m)) = Some z"
    show "strData \<noteq> [] \<or> lastIndex \<noteq> 0"
    proof (rule ccontr)
      assume "\<not> (strData \<noteq> [] \<or> lastIndex \<noteq> 0)"
      then have e: "strData = []" "lastIndex = 0" by simp_all
      have "regex_exec [] 0 = Some \<lparr>group1 = [], group2 = None, group3 = Some [], match_end = 0\<rparr>"
        by (simp add: regex_exec_def substring_def)
      with step e have "f [] 0 (push_match d \<lparr>group1 = [], group2 = None, group3 = Some [], match_end = 0\<rparr>) = Some z"
        by simp
      from IH[OF this] show False by simp
    qed
  qed
  from this[OF Some] show ?thesis by simp
qed

lemma parseCSV_empty_text: "parseCSV [] trim = None"
  by (simp add: parseCSV_def exec_loop_empty_text)

end
